theory Spec2Isabelle
  imports Complex_Main "HOL-Library.Sublist"
begin

section \<open>CIFIX LEARN backend: a shallow embedding\<close>

text \<open>
  The backend is a FastAPI service over a relational schema.  The embedding keeps the
  tables of \<^verbatim>\<open>app/models/user.py\<close> and \<^verbatim>\<open>app/models/analytics.py\<close> as lists of
  records inside one database record, passes that record through every operation and
  returns the updated one.  A Python exception is a value of type \<open>error\<close>; an operation
  that can raise returns \<open>error + 'a\<close> with \<open>Inl\<close> for the exception.

  Conventions.
  \<^item> Isabelle record fields are global constants, so every column carries the initials of
    its table (\<open>lp_slug\<close> is \<^verbatim>\<open>LearningPath.slug\<close>).  Columns that no modelled
    operation reads or branches on (descriptions, icons, audit timestamps) are left out.
  \<^item> A UUID is a natural number.  The value \<^verbatim>\<open>uuid.uuid4()\<close> produces for a new row is
    an argument of the operation that inserts the row.
  \<^item> A \<^verbatim>\<open>datetime\<close> is an integer number of microseconds since the epoch (UTC);
    \<^verbatim>\<open>datetime.utcnow()\<close> is the argument \<open>now\<close>, and the server's local time zone
    is UTC.  A value read from a \<^verbatim>\<open>DateTime(timezone=True)\<close> column is timezone-aware,
    \<^verbatim>\<open>datetime.utcnow()\<close> is naive, and Python raises \<^verbatim>\<open>TypeError\<close> when the two are
    ordered in Python; inside an SQL statement the comparison is the database's.
  \<^item> A Python \<^verbatim>\<open>float\<close> is the real number it denotes.  Comparisons, \<^verbatim>\<open>max\<close>, the
    floor division of a clock reading by an integer and the difference of a clock reading
    and an integer are exact on floats and are the operations on reals; divisions and
    roundings of floats are parameters of the operation that performs them.
  \<^item> A column without a server-side default can hold \<^verbatim>\<open>NULL\<close> in rows that were not
    inserted through the ORM; such a column is an \<open>option\<close> where the code computes with
    it.
  \<^item> A \<^verbatim>\<open>select\<close> is a \<open>filter\<close> over the table; \<^verbatim>\<open>scalar_one_or_none\<close> raises
    when the filter keeps more than one row, as SQLAlchemy does.
  \<^item> Strings are ASCII byte lists.
\<close>

subsection \<open>Exceptions and query results\<close>

datatype error =
    MultipleResultsFound
  | ValueError string
  | HTTPException nat
  | IntegrityError
  | InvalidRequestError
  | TypeError

fun scalar_one_or_none :: "'a list \<Rightarrow> error + 'a option" where
  "scalar_one_or_none [] = Inr None"
| "scalar_one_or_none [x] = Inr (Some x)"
| "scalar_one_or_none (x # y # zs) = Inl MultipleResultsFound"

subsection \<open>Strings\<close>

definition lower_char :: "char \<Rightarrow> char" where
  "lower_char c =
     (case map_of (zip ''ABCDEFGHIJKLMNOPQRSTUVWXYZ'' ''abcdefghijklmnopqrstuvwxyz'') c of
        Some l \<Rightarrow> l
      | None \<Rightarrow> c)"

definition lower :: "string \<Rightarrow> string" where
  "lower s = map lower_char s"

text \<open>
  \<^verbatim>\<open>str.replace(old, new)\<close> for a non-empty \<open>old\<close>: scan from the left, replace each
  occurrence and continue after it.  (Python also defines the empty \<open>old\<close>; the code
  never uses it and the model leaves the string unchanged there.)
\<close>

function replace :: "string \<Rightarrow> string \<Rightarrow> string \<Rightarrow> string" where
  "replace old new [] = []"
| "replace old new (c # cs) =
     (if old \<noteq> [] \<and> prefix old (c # cs)
      then new @ replace old new (drop (length old) (c # cs))
      else c # replace old new cs)"
  by pat_completeness auto
termination
  by (relation "measure (\<lambda>(old, new, s). length s)") (auto simp: neq_Nil_conv)

text \<open>\<^verbatim>\<open>sub in s\<close> on strings: \<open>sub\<close> occurs as a contiguous piece of \<open>s\<close>.\<close>

fun contains :: "string \<Rightarrow> string \<Rightarrow> bool" where
  "contains [] sub = (sub = [])"
| "contains (c # cs) sub = (prefix sub (c # cs) \<or> contains cs sub)"

subsection \<open>Tables\<close>

type_synonym uuid = nat
type_synonym datetime = int

record User =
  u_id :: uuid
  u_email :: string
  u_password_hash :: string
  u_email_verification_token :: "string option"
  u_email_verification_expires :: "datetime option"
  u_last_login :: "datetime option"
  u_failed_login_attempts :: "int option"
  u_locked_until :: "datetime option"
  u_is_active :: bool

record Student =
  st_id :: uuid
  st_user_id :: uuid
  st_age :: int
  st_is_active :: bool

record StudentAssessment =
  sas_id :: uuid
  sas_student_id :: uuid
  sas_is_completed :: bool

record AssessmentAnalytics =
  aa_id :: uuid
  aa_assessment_id :: uuid
  aa_student_id :: uuid
  aa_total_time_seconds :: "int option"

record LearningPath =
  lp_id :: uuid
  lp_name :: string
  lp_slug :: string
  lp_is_active :: bool

record LearningModule =
  lm_id :: uuid
  lm_path_id :: uuid
  lm_sort_order :: int
  lm_is_active :: bool

record StudentLearningPath =
  slp_id :: uuid
  slp_student_id :: uuid
  slp_path_id :: uuid
  slp_started_at :: "datetime option"
  slp_completed_at :: "datetime option"
  slp_progress_percentage :: int
  slp_is_active :: bool

record StudentModuleProgress =
  smp_id :: uuid
  smp_student_id :: uuid
  smp_module_id :: uuid
  smp_student_path_id :: uuid
  smp_status :: string
  smp_started_at :: "datetime option"
  smp_completed_at :: "datetime option"
  smp_progress_percentage :: int
  smp_time_spent_minutes :: int
  smp_last_accessed :: datetime
  smp_notes :: "string option"

record AchievementType =
  at_id :: uuid
  at_name :: string

record StudentAchievement =
  sa_id :: uuid
  sa_student_id :: uuid
  sa_achievement_type_id :: uuid
  sa_earned_at :: datetime

record db =
  users :: "User list"
  students :: "Student list"
  student_assessments :: "StudentAssessment list"
  assessment_analytics :: "AssessmentAnalytics list"
  learning_paths :: "LearningPath list"
  learning_modules :: "LearningModule list"
  student_learning_paths :: "StudentLearningPath list"
  student_module_progress :: "StudentModuleProgress list"
  achievement_types :: "AchievementType list"
  student_achievements :: "StudentAchievement list"

definition empty_db :: db where
  "empty_db =
     \<lparr>users = [], students = [], student_assessments = [], assessment_analytics = [],
      learning_paths = [], learning_modules = [], student_learning_paths = [],
      student_module_progress = [], achievement_types = [], student_achievements = []\<rparr>"

subsection \<open>Learning service: finding a path by name\<close>

definition name_mappings :: "(string \<times> string) list" where
  "name_mappings =
     [(''game'', ''game-development''),
      (''gaming'', ''game-development''),
      (''games'', ''game-development''),
      (''ai'', ''ai-machine-learning''),
      (''artificial intelligence'', ''ai-machine-learning''),
      (''machine learning'', ''ai-machine-learning''),
      (''web'', ''web-development''),
      (''website'', ''web-development''),
      (''websites'', ''web-development''),
      (''robot'', ''robotics''),
      (''robots'', ''robotics''),
      (''data'', ''data-science''),
      (''analytics'', ''data-science''),
      (''mobile'', ''mobile-app-development''),
      (''app'', ''mobile-app-development''),
      (''apps'', ''mobile-app-development''),
      (''programming'', ''general-programming''),
      (''coding'', ''general-programming'')]"

definition select_path_by_slug :: "string \<Rightarrow> db \<Rightarrow> error + LearningPath option" where
  "select_path_by_slug slug d =
     scalar_one_or_none (filter (\<lambda>p. lp_slug p = slug \<and> lp_is_active p) (learning_paths d))"

text \<open>The loop over \<^verbatim>\<open>name_mappings.items()\<close>: the first key found in the input decides.\<close>

fun mapping_loop :: "(string \<times> string) list \<Rightarrow> string \<Rightarrow> db \<Rightarrow> error + LearningPath option" where
  "mapping_loop [] path_key d = Inr None"
| "mapping_loop ((key, slug) # rest) path_key d =
     (if contains path_key key then select_path_by_slug slug d
      else mapping_loop rest path_key d)"

definition find_learning_path_by_name :: "string \<Rightarrow> db \<Rightarrow> error + LearningPath option" where
  "find_learning_path_by_name path_name d =
     (case scalar_one_or_none
             (filter (\<lambda>p. lp_name p = path_name \<and> lp_is_active p) (learning_paths d)) of
        Inl e \<Rightarrow> Inl e
      | Inr (Some path) \<Rightarrow> Inr (Some path)
      | Inr None \<Rightarrow>
          (let slug = replace ''  '' ''-'' (replace ''&'' '''' (replace '' '' ''-'' (lower path_name)))
           in case select_path_by_slug slug d of
                Inl e \<Rightarrow> Inl e
              | Inr (Some path) \<Rightarrow> Inr (Some path)
              | Inr None \<Rightarrow> mapping_loop name_mappings (lower path_name) d))"

subsection \<open>Learning service: module locking and starting a module\<close>

text \<open>\<^verbatim>\<open>LearningService._is_module_locked\<close>.\<close>

definition is_module_locked :: "uuid \<Rightarrow> LearningModule \<Rightarrow> db \<Rightarrow> error + bool" where
  "is_module_locked student_id modul d =
     (if lm_sort_order modul \<le> 1 then Inr False
      else
        case scalar_one_or_none
               (filter (\<lambda>m. lm_path_id m = lm_path_id modul \<and>
                            lm_sort_order m = lm_sort_order modul - 1 \<and>
                            lm_is_active m)
                  (learning_modules d)) of
          Inl e \<Rightarrow> Inl e
        | Inr None \<Rightarrow> Inr False
        | Inr (Some previous_module) \<Rightarrow>
            (case scalar_one_or_none
                    (filter (\<lambda>p. smp_student_id p = student_id \<and>
                                 smp_module_id p = lm_id previous_module \<and>
                                 smp_status p = ''completed'')
                       (student_module_progress d)) of
               Inl e \<Rightarrow> Inl e
             | Inr previous_progress \<Rightarrow> Inr (previous_progress = None)))"

text \<open>
  Writing an ORM object back: the row with the object's primary key is replaced.
\<close>

definition store_progress :: "StudentModuleProgress \<Rightarrow> db \<Rightarrow> db" where
  "store_progress p d =
     d\<lparr>student_module_progress :=
          map (\<lambda>q. if smp_id q = smp_id p then p else q) (student_module_progress d)\<rparr>"

text \<open>
  \<^verbatim>\<open>LearningService.start_module\<close>.  The result is the progress object together with
  the committed database; when the function raises nothing has been added or changed.
  The analytics event written afterwards goes to a table of its own through a session of
  its own and is not part of the model.
\<close>

definition start_module ::
  "uuid \<Rightarrow> uuid \<Rightarrow> datetime \<Rightarrow> uuid \<Rightarrow> db \<Rightarrow> error + (StudentModuleProgress \<times> db)" where
  "start_module student_id module_id now new_id d =
     (case scalar_one_or_none (filter (\<lambda>m. lm_id m = module_id) (learning_modules d)) of
        Inl e \<Rightarrow> Inl e
      | Inr None \<Rightarrow> Inl (ValueError ''Module not found'')
      | Inr (Some modul) \<Rightarrow>
          (case scalar_one_or_none
                  (filter (\<lambda>sp. slp_student_id sp = student_id \<and>
                                slp_path_id sp = lm_path_id modul \<and>
                                slp_is_active sp)
                     (student_learning_paths d)) of
             Inl e \<Rightarrow> Inl e
           | Inr None \<Rightarrow>
               Inl (ValueError ''Student does not have access to this module's learning path'')
           | Inr (Some student_path) \<Rightarrow>
               (case is_module_locked student_id modul d of
                  Inl e \<Rightarrow> Inl e
                | Inr True \<Rightarrow>
                    Inl (ValueError ''Module is locked. Complete previous modules first.'')
                | Inr False \<Rightarrow>
                    (case scalar_one_or_none
                            (filter (\<lambda>p. smp_student_id p = student_id \<and>
                                         smp_module_id p = module_id)
                               (student_module_progress d)) of
                       Inl e \<Rightarrow> Inl e
                     | Inr (Some existing_progress) \<Rightarrow>
                         (let p1 = (if smp_status existing_progress = ''not_started''
                                    then existing_progress
                                           \<lparr>smp_status := ''in_progress'',
                                            smp_started_at := Some now\<rparr>
                                    else existing_progress);
                              progress = p1\<lparr>smp_last_accessed := now\<rparr>
                          in Inr (progress, store_progress progress d))
                     | Inr None \<Rightarrow>
                         (let progress =
                                \<lparr>smp_id = new_id,
                                 smp_student_id = student_id,
                                 smp_module_id = module_id,
                                 smp_student_path_id = slp_id student_path,
                                 smp_status = ''in_progress'',
                                 smp_started_at = Some now,
                                 smp_completed_at = None,
                                 smp_progress_percentage = 0,
                                 smp_time_spent_minutes = 0,
                                 smp_last_accessed = now,
                                 smp_notes = None\<rparr>
                          in Inr (progress,
                                  d\<lparr>student_module_progress :=
                                       student_module_progress d @ [progress]\<rparr>))))))"

subsection \<open>Learning service: path progress\<close>

text \<open>
  \<^verbatim>\<open>LearningService._update_path_progress\<close>.  Its first statement is
  \<^verbatim>\<open>select(func.count(LearningModule.id)).join(StudentLearningPath)\<close> with no \<^verbatim>\<open>ON\<close>
  clause.  SQLAlchemy builds such a join along a foreign key between the two tables, and
  \<^verbatim>\<open>app/models/user.py\<close> declares none between \<^verbatim>\<open>learning_modules\<close> and
  \<^verbatim>\<open>student_learning_paths\<close> (each of them refers to \<^verbatim>\<open>learning_paths\<close> only): executing
  the statement raises \<^verbatim>\<open>InvalidRequestError\<close>, on every call and whatever the tables
  hold.  The statements after it (the count of completed records, the percentage, the
  two updates of the student's path) are never reached.
\<close>

definition update_path_progress :: "uuid \<Rightarrow> uuid \<Rightarrow> datetime \<Rightarrow> db \<Rightarrow> error + db" where
  "update_path_progress student_id student_path_id now d = Inl InvalidRequestError"

subsection \<open>Learning service: achievements\<close>

text \<open>\<^verbatim>\<open>LearningService._award_achievement_if_new\<close>.\<close>

definition award_achievement_if_new ::
  "uuid \<Rightarrow> string \<Rightarrow> datetime \<Rightarrow> uuid \<Rightarrow> db \<Rightarrow> error + db" where
  "award_achievement_if_new student_id achievement_name now new_id d =
     (case scalar_one_or_none
             (filter (\<lambda>t. at_name t = achievement_name) (achievement_types d)) of
        Inl e \<Rightarrow> Inl e
      | Inr None \<Rightarrow> Inr d
      | Inr (Some achievement_type) \<Rightarrow>
          (case scalar_one_or_none
                  (filter (\<lambda>a. sa_student_id a = student_id \<and>
                               sa_achievement_type_id a = at_id achievement_type)
                     (student_achievements d)) of
             Inl e \<Rightarrow> Inl e
           | Inr (Some existing_achievement) \<Rightarrow> Inr d
           | Inr None \<Rightarrow>
               Inr (d\<lparr>student_achievements :=
                        student_achievements d @
                          [\<lparr>sa_id = new_id,
                            sa_student_id = student_id,
                            sa_achievement_type_id = at_id achievement_type,
                            sa_earned_at = now\<rparr>]\<rparr>)))"

text \<open>
  The three counts of \<^verbatim>\<open>LearningService._check_achievements\<close>.  A comparison with a
  \<^verbatim>\<open>NULL\<close> timestamp is not true in SQL.
\<close>

definition total_completed :: "uuid \<Rightarrow> db \<Rightarrow> nat" where
  "total_completed student_id d =
     length (filter (\<lambda>p. smp_student_id p = student_id \<and> smp_status p = ''completed'')
               (student_module_progress d))"

definition today_start :: "datetime \<Rightarrow> datetime" where
  "today_start now = now - now mod 86400000000"

definition today_completed :: "uuid \<Rightarrow> datetime \<Rightarrow> db \<Rightarrow> nat" where
  "today_completed student_id now d =
     length (filter (\<lambda>p. smp_student_id p = student_id \<and> smp_status p = ''completed'' \<and>
                         (case smp_completed_at p of
                            None \<Rightarrow> False
                          | Some t \<Rightarrow> t \<ge> today_start now))
               (student_module_progress d))"

definition completed_paths :: "uuid \<Rightarrow> db \<Rightarrow> nat" where
  "completed_paths student_id d =
     length (filter (\<lambda>sp. slp_student_id sp = student_id \<and> slp_completed_at sp \<noteq> None)
               (student_learning_paths d))"

text \<open>
  \<^verbatim>\<open>LearningService._check_achievements\<close>; \<open>ids\<close> holds the primary keys of the up to
  three rows it can insert.
\<close>

definition check_achievements ::
  "uuid \<Rightarrow> datetime \<Rightarrow> uuid \<times> uuid \<times> uuid \<Rightarrow> db \<Rightarrow> error + db" where
  "check_achievements student_id now ids d =
     (case ids of (id1, id2, id3) \<Rightarrow>
        (case (if total_completed student_id d \<ge> 1
               then award_achievement_if_new student_id ''First Steps'' now id1 d
               else Inr d) of
           Inl e \<Rightarrow> Inl e
         | Inr d1 \<Rightarrow>
             (case (if today_completed student_id now d1 \<ge> 3
                    then award_achievement_if_new student_id ''Quick Learner'' now id2 d1
                    else Inr d1) of
                Inl e \<Rightarrow> Inl e
              | Inr d2 \<Rightarrow>
                  (if completed_paths student_id d2 \<ge> 1
                   then award_achievement_if_new student_id ''Path Completer'' now id3 d2
                   else Inr d2))))"

subsection \<open>Learning service: updating module progress\<close>

text \<open>Python's \<^verbatim>\<open>int(x)\<close> on a float truncates towards zero.\<close>

definition py_int :: "real \<Rightarrow> int" where
  "py_int x = (if 0 \<le> x then \<lfloor>x\<rfloor> else \<lceil>x\<rceil>)"

text \<open>
  \<^verbatim>\<open>LearningService.update_module_progress\<close>.  The argument \<^verbatim>\<open>progress_percentage\<close> is
  a float and the column \<^verbatim>\<open>progress_percentage\<close> is an \<^verbatim>\<open>Integer\<close>: the Python object
  holds \<^verbatim>\<open>max(old, progress_percentage)\<close> as it is, which is the old integer unless the
  float is larger, and the row that the commit writes holds a larger float as the
  database driver converts it for an integer column.  The conversion is the parameter
  \<open>int4\<close> (asyncpg applies \<^verbatim>\<open>int()\<close>, which is \<open>py_int\<close>).
  The result is the row as committed, the percentage that the returned object carries,
  and the database.

  All readings of the clock within one call are the one instant \<open>now\<close>.  When the
  function raises, nothing has been committed, the request's session is rolled back
  (\<^verbatim>\<open>get_db\<close>) and the database stays as it was.  The router turns a \<^verbatim>\<open>ValueError\<close>
  into a 400 response; any other exception leaves the endpoint.
\<close>

definition update_module_progress ::
  "(real \<Rightarrow> int) \<Rightarrow> uuid \<Rightarrow> uuid \<Rightarrow> real \<Rightarrow> int \<Rightarrow> string option \<Rightarrow> datetime
     \<Rightarrow> uuid \<times> uuid \<times> uuid \<Rightarrow> db \<Rightarrow> error + (StudentModuleProgress \<times> real \<times> db)" where
  "update_module_progress int4 student_id module_id progress_percentage time_spent_minutes
       notes now ids d =
     (case scalar_one_or_none
             (filter (\<lambda>p. smp_student_id p = student_id \<and> smp_module_id p = module_id)
                (student_module_progress d)) of
        Inl e \<Rightarrow> Inl e
      | Inr None \<Rightarrow> Inl (ValueError ''Module progress not found. Start the module first.'')
      | Inr (Some progress) \<Rightarrow>
          (let new_percentage =
                 max (real_of_int (smp_progress_percentage progress)) progress_percentage;
               p1 = progress
                      \<lparr>smp_progress_percentage :=
                         (if real_of_int (smp_progress_percentage progress) < progress_percentage
                          then int4 progress_percentage
                          else smp_progress_percentage progress),
                       smp_time_spent_minutes :=
                         smp_time_spent_minutes progress + time_spent_minutes,
                       smp_last_accessed := now\<rparr>;
               p2 = (case notes of
                       None \<Rightarrow> p1
                     | Some n \<Rightarrow> if n \<noteq> [] then p1\<lparr>smp_notes := Some n\<rparr> else p1)
           in if new_percentage \<ge> 100 \<and> smp_status p2 \<noteq> ''completed''
              then
                (let p3 = p2\<lparr>smp_status := ''completed'', smp_completed_at := Some now\<rparr>;
                     d1 = store_progress p3 d
                 in case update_path_progress student_id (smp_student_path_id p3) now d1 of
                      Inl e \<Rightarrow> Inl e
                    | Inr d2 \<Rightarrow>
                        (case check_achievements student_id now ids d2 of
                           Inl e \<Rightarrow> Inl e
                         | Inr d3 \<Rightarrow> Inr (p3, new_percentage, d3)))
              else Inr (p2, new_percentage, store_progress p2 d)))"

subsection \<open>Security utilities\<close>

text \<open>
  The libraries the code calls (passlib, python-jose, the \<^verbatim>\<open>uuid\<close> module) are
  parameters, collected in one record: \<open>pwd_verify\<close> is \<^verbatim>\<open>pwd_context.verify\<close>,
  \<open>pwd_hash\<close> is \<^verbatim>\<open>pwd_context.hash\<close>, \<open>jwt_decode\<close> is \<^verbatim>\<open>jwt.decode\<close> with the
  configured secret (\<open>None\<close> when it raises \<^verbatim>\<open>JWTError\<close>: bad signature, expired,
  malformed claims), \<open>jwt_encode\<close> is \<^verbatim>\<open>jwt.encode\<close>, \<open>UUID\<close> is the constructor
  \<^verbatim>\<open>uuid.UUID(s)\<close> (\<open>None\<close> when it raises \<^verbatim>\<open>ValueError\<close>) and \<open>uuid_str\<close> is
  \<^verbatim>\<open>str\<close> on a UUID.
\<close>

record payload =
  pl_sub :: "string option"
  pl_email :: "string option"
  pl_type :: "string option"
  pl_exp :: "datetime option"
  pl_iat :: "datetime option"

record libs =
  pwd_verify :: "string \<Rightarrow> string \<Rightarrow> bool"
  pwd_hash :: "string \<Rightarrow> string"
  jwt_decode :: "string \<Rightarrow> payload option"
  jwt_encode :: "payload \<Rightarrow> string"
  UUID :: "string \<Rightarrow> uuid option"
  uuid_str :: "uuid \<Rightarrow> string"

record settings =
  SESSION_TIMEOUT :: int
  PASSWORD_MIN_LENGTH :: nat
  REQUIRE_STRONG_PASSWORDS :: bool

definition timedelta_seconds :: "int \<Rightarrow> int" where
  "timedelta_seconds n = n * 1000000"

definition timedelta_minutes :: "int \<Rightarrow> int" where
  "timedelta_minutes n = n * 60000000"

definition timedelta_hours :: "int \<Rightarrow> int" where
  "timedelta_hours n = n * 3600000000"

definition verify_token :: "libs \<Rightarrow> string \<Rightarrow> payload option" where
  "verify_token lib token = jwt_decode lib token"

definition create_access_token_for_user ::
  "libs \<Rightarrow> settings \<Rightarrow> datetime \<Rightarrow> string \<Rightarrow> string \<Rightarrow> string" where
  "create_access_token_for_user lib st now user_id email =
     jwt_encode lib
       \<lparr>pl_sub = Some user_id, pl_email = Some email, pl_type = Some ''access'',
        pl_exp = Some (now + timedelta_seconds (SESSION_TIMEOUT st)), pl_iat = Some now\<rparr>"

definition is_upper :: "char \<Rightarrow> bool" where
  "is_upper c = (c \<in> set ''ABCDEFGHIJKLMNOPQRSTUVWXYZ'')"

definition is_lower :: "char \<Rightarrow> bool" where
  "is_lower c = (c \<in> set ''abcdefghijklmnopqrstuvwxyz'')"

definition is_digit :: "char \<Rightarrow> bool" where
  "is_digit c = (c \<in> set ''0123456789'')"

text \<open>The class \<^verbatim>\<open>[!@#$%^&*()_+\-=\[\]{};\':"\\|,.<>\?]\<close> of the special-character check.\<close>

definition is_special :: "char \<Rightarrow> bool" where
  "is_special c =
     (c \<in> set ''!@#$%^&*()_+-=[]{};:|,.<>?'' \<or> c = CHR 0x27 \<or> c = CHR 0x22 \<or> c = CHR 0x5C)"

definition common_passwords :: "string list" where
  "common_passwords = [''password'', ''123456'', ''password123'', ''admin'', ''letmein'']"

text \<open>
  \<^verbatim>\<open>SecurityService.validate_password_strength\<close>: the pair of \<^verbatim>\<open>is_valid\<close> and
  \<^verbatim>\<open>strength_score\<close> (the feedback texts are left out).
\<close>

definition validate_password_strength :: "settings \<Rightarrow> string \<Rightarrow> bool \<times> nat" where
  "validate_password_strength st password =
     (let s1 = (if length password \<ge> PASSWORD_MIN_LENGTH st then 2 else 0);
          s2 = s1 + (if list_ex is_upper password then 1 else 0);
          s3 = s2 + (if list_ex is_lower password then 1 else 0);
          s4 = s3 + (if list_ex is_digit password then 1 else 0);
          s5 = s4 + (if list_ex is_special password then 2 else 0);
          score = (if lower password \<in> set common_passwords then 0 else s5);
          is_valid = (if REQUIRE_STRONG_PASSWORDS st then score \<ge> 5 else score \<ge> 2)
      in (is_valid, score))"

text \<open>
  \<^verbatim>\<open>SecurityService.validate_email\<close> matches
  \<^verbatim>\<open>^[a-zA-Z0-9._%+-]+@[a-zA-Z0-9.-]+\.[a-zA-Z]{2,}$\<close> from the start of the string.  The
  local part cannot hold an \<^verbatim>\<open>@\<close>, so it ends at the first one; the last group holds
  letters only, so it starts after the last dot; \<^verbatim>\<open>$\<close> also matches before one final
  newline.
\<close>

definition is_alnum :: "char \<Rightarrow> bool" where
  "is_alnum c = (is_upper c \<or> is_lower c \<or> is_digit c)"

definition validate_email :: "string \<Rightarrow> bool" where
  "validate_email email =
     (let s = (if email \<noteq> [] \<and> last email = CHR 0x0A then butlast email else email);
          local_part = takeWhile (\<lambda>c. c \<noteq> CHR ''@'') s;
          rest = drop (length local_part + 1) s;
          tld = rev (takeWhile (\<lambda>c. c \<noteq> CHR ''.'') (rev rest));
          domain = take (length rest - length tld - 1) rest
      in CHR ''@'' \<in> set s \<and>
         local_part \<noteq> [] \<and> list_all (\<lambda>c. is_alnum c \<or> c \<in> set ''._%+-'') local_part \<and>
         CHR ''.'' \<in> set rest \<and>
         domain \<noteq> [] \<and> list_all (\<lambda>c. is_alnum c \<or> c \<in> set ''.-'') domain \<and>
         length tld \<ge> 2 \<and> list_all (\<lambda>c. is_upper c \<or> is_lower c) tld)"

definition validate_student_age :: "int \<Rightarrow> bool" where
  "validate_student_age age = (5 \<le> age \<and> age \<le> 18)"

text \<open>
  What the client receives when an exception leaves an endpoint: the status of an
  \<^verbatim>\<open>HTTPException\<close>, and 500 for every other exception.
\<close>

fun http_status :: "error \<Rightarrow> nat" where
  "http_status (HTTPException code) = code"
| "http_status e = 500"

subsection \<open>Authentication router\<close>

text \<open>
  \<^verbatim>\<open>get_current_user\<close>.  A token that does not verify, a payload without
  \<^verbatim>\<open>sub\<close> and an unknown or inactive user raise the 401 exception; the conversion
  \<^verbatim>\<open>uuid.UUID(user_id)\<close> is not guarded and its \<^verbatim>\<open>ValueError\<close> leaves the function.
\<close>

definition get_current_user :: "libs \<Rightarrow> string \<Rightarrow> db \<Rightarrow> error + User" where
  "get_current_user lib credentials d =
     (case verify_token lib credentials of
        None \<Rightarrow> Inl (HTTPException 401)
      | Some pl \<Rightarrow>
          (case pl_sub pl of
             None \<Rightarrow> Inl (HTTPException 401)
           | Some user_id \<Rightarrow>
               (case UUID lib user_id of
                  None \<Rightarrow> Inl (ValueError ''badly formed hexadecimal UUID string'')
                | Some uid \<Rightarrow>
                    (case scalar_one_or_none
                            (filter (\<lambda>u. u_id u = uid \<and> u_is_active u) (users d)) of
                       Inl e \<Rightarrow> Inl e
                     | Inr None \<Rightarrow> Inl (HTTPException 401)
                     | Inr (Some user) \<Rightarrow> Inr user))))"

text \<open>
  An endpoint declared with \<^verbatim>\<open>current_user: User = Depends(get_current_user)\<close>: FastAPI
  resolves the dependency first and calls the endpoint function only with its result.
  The endpoint body is any function of the user and the database.
\<close>

definition depends_get_current_user ::
  "libs \<Rightarrow> (User \<Rightarrow> db \<Rightarrow> (error + 'a) \<times> db) \<Rightarrow> string \<Rightarrow> db \<Rightarrow> (error + 'a) \<times> db" where
  "depends_get_current_user lib endpoint credentials d =
     (case get_current_user lib credentials d of
        Inl e \<Rightarrow> (Inl e, d)
      | Inr user \<Rightarrow> endpoint user d)"

record TokenResponse =
  tr_access_token :: string
  tr_token_type :: string
  tr_user_id :: string
  tr_email :: string
  tr_expires_in :: int

record CompleteRegistration =
  reg_email :: string
  reg_password :: string
  reg_age :: int

text \<open>
  Flushing a new row: the insert fails on a primary key that is taken and, for a user,
  on an email that is taken (\<^verbatim>\<open>unique=True\<close>).
\<close>

definition insert_user :: "User \<Rightarrow> db \<Rightarrow> error + db" where
  "insert_user u d =
     (if list_ex (\<lambda>v. u_id v = u_id u \<or> u_email v = u_email u) (users d)
      then Inl IntegrityError
      else Inr (d\<lparr>users := users d @ [u]\<rparr>))"

definition insert_student :: "Student \<Rightarrow> db \<Rightarrow> error + db" where
  "insert_student s d =
     (if list_ex (\<lambda>v. st_id v = st_id s) (students d)
      then Inl IntegrityError
      else Inr (d\<lparr>students := students d @ [s]\<rparr>))"

text \<open>
  \<^verbatim>\<open>register\<close>, after pydantic has parsed the body.  \<open>verification_token\<close> is the value
  of \<^verbatim>\<open>generate_verification_token()\<close>.  Every exception inside the \<^verbatim>\<open>try\<close> block
  rolls the session back and becomes a 500 response.  The verification mail changes no
  table and its failure is swallowed; the name and contact columns are left out.
\<close>

definition register ::
  "libs \<Rightarrow> settings \<Rightarrow> datetime \<Rightarrow> string \<Rightarrow> uuid \<Rightarrow> uuid \<Rightarrow> CompleteRegistration \<Rightarrow> db
     \<Rightarrow> (error + TokenResponse) \<times> db" where
  "register lib st now verification_token new_user_id new_student_id registration_data d =
     (if \<not> validate_email (reg_email registration_data) then (Inl (HTTPException 400), d)
      else if \<not> fst (validate_password_strength st (reg_password registration_data))
      then (Inl (HTTPException 400), d)
      else if \<not> validate_student_age (reg_age registration_data)
      then (Inl (HTTPException 400), d)
      else
        case scalar_one_or_none
               (filter (\<lambda>u. u_email u = reg_email registration_data) (users d)) of
          Inl e \<Rightarrow> (Inl e, d)
        | Inr (Some existing_user) \<Rightarrow> (Inl (HTTPException 400), d)
        | Inr None \<Rightarrow>
            (let new_user =
                   \<lparr>u_id = new_user_id,
                    u_email = lower (reg_email registration_data),
                    u_password_hash = pwd_hash lib (reg_password registration_data),
                    u_email_verification_token = Some verification_token,
                    u_email_verification_expires = Some (now + timedelta_hours 24),
                    u_last_login = None,
                    u_failed_login_attempts = Some 0,
                    u_locked_until = None,
                    u_is_active = True\<rparr>
             in case insert_user new_user d of
                  Inl e \<Rightarrow> (Inl (HTTPException 500), d)
                | Inr d1 \<Rightarrow>
                    (let new_student =
                           \<lparr>st_id = new_student_id,
                            st_user_id = u_id new_user,
                            st_age = reg_age registration_data,
                            st_is_active = True\<rparr>
                     in case insert_student new_student d1 of
                          Inl e \<Rightarrow> (Inl (HTTPException 500), d)
                        | Inr d2 \<Rightarrow>
                            (Inr \<lparr>tr_access_token =
                                    create_access_token_for_user lib st now
                                      (uuid_str lib (u_id new_user)) (u_email new_user),
                                  tr_token_type = ''bearer'',
                                  tr_user_id = uuid_str lib (u_id new_user),
                                  tr_email = u_email new_user,
                                  tr_expires_in = 3600\<rparr>,
                             d2))))"

record LoginRequest =
  login_email :: string
  login_password :: string

definition store_user :: "User \<Rightarrow> db \<Rightarrow> db" where
  "store_user u d = d\<lparr>users := map (\<lambda>v. if u_id v = u_id u then u else v) (users d)\<rparr>"

text \<open>
  \<^verbatim>\<open>login\<close>.  The failure branch commits the new counter before it raises, so the
  result carries the database next to the exception.
  \<^item> \<^verbatim>\<open>failed_login_attempts\<close> has a Python-side default only; a row inserted with raw
    SQL (the administrator of \<^verbatim>\<open>init_db.py\<close>) holds \<^verbatim>\<open>NULL\<close>, and \<^verbatim>\<open>+= 1\<close> on
    \<^verbatim>\<open>None\<close> raises \<^verbatim>\<open>TypeError\<close>.
  \<^item> \<^verbatim>\<open>locked_until\<close> is a \<^verbatim>\<open>DateTime(timezone=True)\<close> column.  The user has just been
    loaded, so a value that is not \<^verbatim>\<open>NULL\<close> is timezone-aware (and truthy), and
    \<^verbatim>\<open>user.locked_until > datetime.utcnow()\<close> orders it with a naive value: the
    comparison raises \<^verbatim>\<open>TypeError\<close>, whatever the two instants are.
  An exception that is not an \<^verbatim>\<open>HTTPException\<close> leaves the endpoint before any commit.
\<close>

definition login ::
  "libs \<Rightarrow> settings \<Rightarrow> datetime \<Rightarrow> LoginRequest \<Rightarrow> db \<Rightarrow> (error + TokenResponse) \<times> db" where
  "login lib st now login_data d =
     (case scalar_one_or_none
             (filter (\<lambda>u. u_email u = lower (login_email login_data) \<and> u_is_active u)
                (users d)) of
        Inl e \<Rightarrow> (Inl e, d)
      | Inr None \<Rightarrow> (Inl (HTTPException 401), d)
      | Inr (Some user) \<Rightarrow>
          if \<not> pwd_verify lib (login_password login_data) (u_password_hash user)
          then
            (case u_failed_login_attempts user of
               None \<Rightarrow> (Inl TypeError, d)
             | Some failed \<Rightarrow>
                 (let u1 = user\<lparr>u_failed_login_attempts := Some (failed + 1)\<rparr>;
                      u2 = (if failed + 1 \<ge> 5
                            then u1\<lparr>u_locked_until := Some (now + timedelta_minutes 30)\<rparr>
                            else u1)
                  in (Inl (HTTPException 401), store_user u2 d)))
          else
            (case u_locked_until user of
               Some locked_until \<Rightarrow> (Inl TypeError, d)
             | None \<Rightarrow>
                 (let u1 = user\<lparr>u_failed_login_attempts := Some 0,
                               u_locked_until := None,
                               u_last_login := Some now\<rparr>
                  in (Inr \<lparr>tr_access_token =
                             create_access_token_for_user lib st now
                               (uuid_str lib (u_id u1)) (u_email u1),
                           tr_token_type = ''bearer'',
                           tr_user_id = uuid_str lib (u_id u1),
                           tr_email = u_email u1,
                           tr_expires_in = 3600\<rparr>,
                      store_user u1 d))))"

subsection \<open>Rate limiting decorators\<close>

text \<open>
  The routers import \<^verbatim>\<open>rate_limit_strict\<close> and \<^verbatim>\<open>rate_limit_normal\<close> from
  \<^verbatim>\<open>app.middleware\<close>.  The repository holds both a module \<^verbatim>\<open>app/middleware.py\<close> and
  a package \<^verbatim>\<open>app/middleware/\<close>; Python resolves the name to the package, and
  \<^verbatim>\<open>main.py\<close> imports \<^verbatim>\<open>app.middleware.logging\<close> from it.  The decorators modelled here
  are therefore those of \<^verbatim>\<open>app/middleware/__init__.py\<close>.

  The module-level dictionary \<^verbatim>\<open>_rate_limit_storage\<close> maps a key to a dictionary from
  window start to count.  The inner dictionary is an association list in insertion
  order; the outer one is a map.  \<^verbatim>\<open>time.time()\<close> is the argument \<open>current_time\<close>.
\<close>

record request =
  client_host :: "string option"
  state_user_id :: "string option"

type_synonym rate_limit_storage = "string \<rightharpoonup> (int \<times> int) list"

definition dict_get :: "('k \<times> 'v) list \<Rightarrow> 'k \<Rightarrow> 'v \<Rightarrow> 'v" where
  "dict_get dict k dflt = (case map_of dict k of Some v \<Rightarrow> v | None \<Rightarrow> dflt)"

fun dict_set :: "('k \<times> 'v) list \<Rightarrow> 'k \<Rightarrow> 'v \<Rightarrow> ('k \<times> 'v) list" where
  "dict_set [] k v = [(k, v)]"
| "dict_set ((k', v') # dict) k v =
     (if k' = k then (k, v) # dict else (k', v') # dict_set dict k v)"

definition client_ip_of :: "request \<Rightarrow> string" where
  "client_ip_of req = (case client_host req of Some h \<Rightarrow> h | None \<Rightarrow> ''unknown'')"

text \<open>
  \<open>state_user_id\<close> is \<^verbatim>\<open>str(request.state.user_id)\<close> when that attribute is set and
  truthy.  Nothing in the repository sets it, so served requests carry \<open>None\<close>.
\<close>

definition identifier_of :: "request \<Rightarrow> string" where
  "identifier_of req =
     (case state_user_id req of Some u \<Rightarrow> u | None \<Rightarrow> client_ip_of req)"

definition is_localhost :: "request \<Rightarrow> bool" where
  "is_localhost req = (client_ip_of req \<in> set [''127.0.0.1'', ''localhost'', ''::1''])"

datatype limiter_error = TooManyRequests | ZeroDivisionError

text \<open>
  The body of \<^verbatim>\<open>wrapper\<close>, which the three decorators share word for word.  The result
  is \<open>Inr func\<close> when the wrapped endpoint \<open>func\<close> is awaited, \<open>Inl TooManyRequests\<close> for
  the \<^verbatim>\<open>HTTPException\<close> with status 429.
\<close>

definition wrapper ::
  "int \<Rightarrow> int \<Rightarrow> string \<Rightarrow> request \<Rightarrow> real \<Rightarrow> 'a \<Rightarrow> rate_limit_storage
     \<Rightarrow> (limiter_error + 'a) \<times> rate_limit_storage" where
  "wrapper requests window func_name req current_time func storage =
     (if is_localhost req then (Inr func, storage)
      else
        (let key = func_name @ '':'' @ identifier_of req;
             old_entries = (case storage key of None \<Rightarrow> [] | Some entries \<Rightarrow> entries);
             kept = filter (\<lambda>(timestamp, count). current_time - real_of_int timestamp
                                                  < real_of_int window) old_entries;
             total_requests = sum_list (map snd kept)
         in if total_requests \<ge> requests then (Inl TooManyRequests, storage(key \<mapsto> kept))
            else if window = 0 then (Inl ZeroDivisionError, storage(key \<mapsto> kept))
            else
              (let window_start = \<lfloor>current_time / real_of_int window\<rfloor> * window
               in (Inr func,
                   storage(key \<mapsto> dict_set kept window_start
                                      (dict_get kept window_start 0 + 1))))))"


definition rate_limit_normal ::
  "int \<Rightarrow> int \<Rightarrow> string \<Rightarrow> request \<Rightarrow> real \<Rightarrow> 'a \<Rightarrow> rate_limit_storage
     \<Rightarrow> (limiter_error + 'a) \<times> rate_limit_storage" where
  "rate_limit_normal requests window = wrapper requests window"

definition rate_limit_relaxed ::
  "int \<Rightarrow> int \<Rightarrow> string \<Rightarrow> request \<Rightarrow> real \<Rightarrow> 'a \<Rightarrow> rate_limit_storage
     \<Rightarrow> (limiter_error + 'a) \<times> rate_limit_storage" where
  "rate_limit_relaxed requests window = wrapper requests window"





subsection \<open>Assessment analytics endpoint\<close>






subsection \<open>Example data\<close>

text \<open>
  Concrete inputs on which the definitions are evaluated below.  The stand-ins for the
  libraries are small total functions: the hash of \<open>p\<close> is \<open>''bcrypt:'' @ p\<close>, four
  token strings decode, and two strings are UUIDs.
\<close>

definition demo_decode :: "string \<Rightarrow> payload option" where
  "demo_decode token =
     (if token = ''token-of-bob''
      then Some \<lparr>pl_sub = Some ''00000000-0000-0000-0000-000000000001'',
                 pl_email = Some ''bob@x.com'', pl_type = Some ''access'',
                 pl_exp = Some 86400000000, pl_iat = Some 0\<rparr>
      else if token = ''token-of-nobody''
      then Some \<lparr>pl_sub = Some ''00000000-0000-0000-0000-000000000009'',
                 pl_email = Some ''eve@x.com'', pl_type = Some ''access'',
                 pl_exp = Some 86400000000, pl_iat = Some 0\<rparr>
      else if token = ''token-without-sub''
      then Some \<lparr>pl_sub = None, pl_email = Some ''bob@x.com'', pl_type = Some ''access'',
                 pl_exp = Some 86400000000, pl_iat = Some 0\<rparr>
      else if token = ''token-with-odd-sub''
      then Some \<lparr>pl_sub = Some ''bob'', pl_email = Some ''bob@x.com'',
                 pl_type = Some ''access'', pl_exp = Some 86400000000, pl_iat = Some 0\<rparr>
      else None)"

definition demo_UUID :: "string \<Rightarrow> uuid option" where
  "demo_UUID s =
     (if s = ''00000000-0000-0000-0000-000000000001'' then Some 1
      else if s = ''00000000-0000-0000-0000-000000000009'' then Some 9
      else None)"

definition demo_uuid_str :: "uuid \<Rightarrow> string" where
  "demo_uuid_str n =
     (if n = 1 then ''00000000-0000-0000-0000-000000000001''
      else ''00000000-0000-0000-0000-000000000009'')"

definition demo_libs :: libs where
  "demo_libs =
     \<lparr>pwd_verify = (\<lambda>p h. h = ''bcrypt:'' @ p),
      pwd_hash = (\<lambda>p. ''bcrypt:'' @ p),
      jwt_decode = demo_decode,
      jwt_encode = (\<lambda>pl. ''jwt''),
      UUID = demo_UUID,
      uuid_str = demo_uuid_str\<rparr>"

text \<open>The defaults of \<^verbatim>\<open>app/core/config.py\<close>.\<close>

definition demo_settings :: settings where
  "demo_settings =
     \<lparr>SESSION_TIMEOUT = 86400, PASSWORD_MIN_LENGTH = 8, REQUIRE_STRONG_PASSWORDS = True\<rparr>"

definition bob :: User where
  "bob =
     \<lparr>u_id = 1, u_email = ''bob@x.com'', u_password_hash = ''bcrypt:Passw0rd!'',
      u_email_verification_token = None, u_email_verification_expires = None,
      u_last_login = None, u_failed_login_attempts = Some 4, u_locked_until = None,
      u_is_active = True\<rparr>"

definition bob_db :: db where
  "bob_db = empty_db\<lparr>users := [bob]\<rparr>"

text \<open>
  The same user after a fifth failed login at the instant 1000, and the administrator as
  \<^verbatim>\<open>init_db.py\<close> inserts it, without a value for \<^verbatim>\<open>failed_login_attempts\<close>.
\<close>

definition locked_bob :: User where
  "locked_bob = bob\<lparr>u_failed_login_attempts := Some 5, u_locked_until := Some 1800001000\<rparr>"

definition admin :: User where
  "admin =
     \<lparr>u_id = 9, u_email = ''admin@x.com'', u_password_hash = ''bcrypt:Adm1n!pass'',
      u_email_verification_token = None, u_email_verification_expires = None,
      u_last_login = None, u_failed_login_attempts = None, u_locked_until = None,
      u_is_active = True\<rparr>"

definition admin_db :: db where
  "admin_db = empty_db\<lparr>users := [admin]\<rparr>"

text \<open>Two databases that differ at most in the table \<^verbatim>\<open>student_achievements\<close>.\<close>

definition same_but_achievements :: "db \<Rightarrow> db \<Rightarrow> bool" where
  "same_but_achievements d d' =
     (users d' = users d \<and> students d' = students d \<and>
      student_assessments d' = student_assessments d \<and>
      assessment_analytics d' = assessment_analytics d \<and>
      learning_paths d' = learning_paths d \<and>
      learning_modules d' = learning_modules d \<and>
      student_learning_paths d' = student_learning_paths d \<and>
      student_module_progress d' = student_module_progress d \<and>
      achievement_types d' = achievement_types d)"

text \<open>
  One learning path with two modules, one student (id 2) enrolled in it with module 11
  in progress, and the three achievement types of \<^verbatim>\<open>init_db.py\<close>.
\<close>

definition game_path :: LearningPath where
  "game_path =
     \<lparr>lp_id = 10, lp_name = ''Game Development'', lp_slug = ''game-development'',
      lp_is_active = True\<rparr>"

definition module_one :: LearningModule where
  "module_one = \<lparr>lm_id = 11, lm_path_id = 10, lm_sort_order = 1, lm_is_active = True\<rparr>"

definition module_two :: LearningModule where
  "module_two = \<lparr>lm_id = 12, lm_path_id = 10, lm_sort_order = 2, lm_is_active = True\<rparr>"

definition alice_path :: StudentLearningPath where
  "alice_path =
     \<lparr>slp_id = 20, slp_student_id = 2, slp_path_id = 10, slp_started_at = None,
      slp_completed_at = None, slp_progress_percentage = 0, slp_is_active = True\<rparr>"

definition alice_progress :: StudentModuleProgress where
  "alice_progress =
     \<lparr>smp_id = 30, smp_student_id = 2, smp_module_id = 11, smp_student_path_id = 20,
      smp_status = ''in_progress'', smp_started_at = Some 0, smp_completed_at = None,
      smp_progress_percentage = 40, smp_time_spent_minutes = 10, smp_last_accessed = 0,
      smp_notes = None\<rparr>"

definition badge_types :: "AchievementType list" where
  "badge_types =
     [\<lparr>at_id = 40, at_name = ''First Steps''\<rparr>,
      \<lparr>at_id = 41, at_name = ''Quick Learner''\<rparr>,
      \<lparr>at_id = 42, at_name = ''Path Completer''\<rparr>]"

definition learn_db :: db where
  "learn_db =
     empty_db\<lparr>learning_paths := [game_path],
              learning_modules := [module_one, module_two],
              student_learning_paths := [alice_path],
              student_module_progress := [alice_progress],
              achievement_types := badge_types\<rparr>"

text \<open>The same database after the student has completed module 11.\<close>

definition alice_done :: StudentModuleProgress where
  "alice_done =
     alice_progress\<lparr>smp_status := ''completed'', smp_completed_at := Some 500,
                    smp_progress_percentage := 100\<rparr>"

definition done_db :: db where
  "done_db = learn_db\<lparr>student_module_progress := [alice_done]\<rparr>"

subsection \<open>Notions used to state the properties of achievements\<close>

text \<open>
  A student holds a badge when a row of \<^verbatim>\<open>student_achievements\<close> links the student to
  the achievement type of that name.
\<close>

definition badge_type_exists :: "string \<Rightarrow> db \<Rightarrow> bool" where
  "badge_type_exists name d = list_ex (\<lambda>ty. at_name ty = name) (achievement_types d)"

definition holds_badge :: "uuid \<Rightarrow> string \<Rightarrow> db \<Rightarrow> bool" where
  "holds_badge student_id name d =
     list_ex (\<lambda>ty. at_name ty = name \<and>
                   list_ex (\<lambda>a. sa_student_id a = student_id \<and>
                                 sa_achievement_type_id a = at_id ty)
                     (student_achievements d))
       (achievement_types d)"

definition achievement_key :: "StudentAchievement \<Rightarrow> uuid \<times> uuid" where
  "achievement_key a = (sa_student_id a, sa_achievement_type_id a)"

text \<open>No student has two rows for one achievement type.\<close>

definition at_most_once :: "db \<Rightarrow> bool" where
  "at_most_once d = distinct (map achievement_key (student_achievements d))"

text \<open>
  A sequence of calls of \<^verbatim>\<open>update_module_progress\<close> (a completion is the call with
  percentage 100), each in a request of its own: a call that raises is rolled back and
  leaves the database to the next call as it found it.
\<close>

type_synonym progress_call =
  "uuid \<times> uuid \<times> real \<times> int \<times> string option \<times> datetime \<times> (uuid \<times> uuid \<times> uuid)"

fun apply_updates :: "(real \<Rightarrow> int) \<Rightarrow> progress_call list \<Rightarrow> db \<Rightarrow> db" where
  "apply_updates int4 [] d = d"
| "apply_updates int4 ((student_id, module_id, pct, minutes, nts, now, ids) # calls) d =
     (case update_module_progress int4 student_id module_id pct minutes nts now ids d of
        Inl e \<Rightarrow> apply_updates int4 calls d
      | Inr (progress, new_percentage, d') \<Rightarrow> apply_updates int4 calls d')"

text \<open>
  The row of \<^verbatim>\<open>update_module_progress\<close> after its assignments and before the completion
  check, named so that properties can refer to it.
\<close>

definition progress_after_update ::
  "(real \<Rightarrow> int) \<Rightarrow> StudentModuleProgress \<Rightarrow> real \<Rightarrow> int \<Rightarrow> string option \<Rightarrow> datetime
     \<Rightarrow> StudentModuleProgress" where
  "progress_after_update int4 p pct minutes nts now =
     (let p1 = p\<lparr>smp_progress_percentage :=
                    (if real_of_int (smp_progress_percentage p) < pct then int4 pct
                     else smp_progress_percentage p),
                  smp_time_spent_minutes := smp_time_spent_minutes p + minutes,
                  smp_last_accessed := now\<rparr>
      in case nts of
           None \<Rightarrow> p1
         | Some n \<Rightarrow> if n \<noteq> [] then p1\<lparr>smp_notes := Some n\<rparr> else p1)"

text \<open>The same database once the student holds the badge ``First Steps''.\<close>

definition badge_db :: db where
  "badge_db =
     done_db\<lparr>student_achievements :=
               [\<lparr>sa_id = 50, sa_student_id = 2, sa_achievement_type_id = 40,
                 sa_earned_at = 1000\<rparr>]\<rparr>"

text \<open>
  A path with two active modules in the first position: module 13 stands beside
  module 11.
\<close>

definition twin_db :: db where
  "twin_db =
     learn_db\<lparr>learning_modules := [module_one, module_one\<lparr>lm_id := 13\<rparr>, module_two]\<rparr>"

subsection \<open>Notions used to state the lookup of a learning path by name\<close>

text \<open>
  The three rules in the words of claim C1.  The slug of a name is the name ``lowercased
  with spaces replaced by hyphens and \<^verbatim>\<open>&\<close> removed''; the mapped slug belongs to ``the
  first key of the table that occurs as a substring of the lowercased input''.
\<close>

definition claimed_slug :: "string \<Rightarrow> string" where
  "claimed_slug path_name =
     filter (\<lambda>c. c \<noteq> CHR ''&'')
       (map (\<lambda>c. if c = CHR '' '' then CHR ''-'' else c) (lower path_name))"

definition first_mapped_slug :: "string \<Rightarrow> string option" where
  "first_mapped_slug path_name =
     map_option snd (find (\<lambda>(key, slug). contains (lower path_name) key) name_mappings)"

text \<open>
  The lookup as the claim words it: the third rule asks for ``the path'' with the mapped
  slug, active or not.
\<close>

definition claimed_lookup :: "string \<Rightarrow> db \<Rightarrow> LearningPath option" where
  "claimed_lookup path_name d =
     (case find (\<lambda>p. lp_name p = path_name \<and> lp_is_active p) (learning_paths d) of
        Some p \<Rightarrow> Some p
      | None \<Rightarrow>
          (case find (\<lambda>p. lp_slug p = claimed_slug path_name \<and> lp_is_active p)
                  (learning_paths d) of
             Some p \<Rightarrow> Some p
           | None \<Rightarrow>
               (case first_mapped_slug path_name of
                  None \<Rightarrow> None
                | Some slug \<Rightarrow> find (\<lambda>p. lp_slug p = slug) (learning_paths d))))"

text \<open>The same lookup with the third rule restricted to active paths.\<close>

definition active_lookup :: "string \<Rightarrow> db \<Rightarrow> LearningPath option" where
  "active_lookup path_name d =
     (case find (\<lambda>p. lp_name p = path_name \<and> lp_is_active p) (learning_paths d) of
        Some p \<Rightarrow> Some p
      | None \<Rightarrow>
          (case find (\<lambda>p. lp_slug p = claimed_slug path_name \<and> lp_is_active p)
                  (learning_paths d) of
             Some p \<Rightarrow> Some p
           | None \<Rightarrow>
               (case first_mapped_slug path_name of
                  None \<Rightarrow> None
                | Some slug \<Rightarrow>
                    find (\<lambda>p. lp_slug p = slug \<and> lp_is_active p) (learning_paths d))))"

text \<open>The example database with its one learning path withdrawn.\<close>

definition paused_db :: db where
  "paused_db = learn_db\<lparr>learning_paths := [game_path\<lparr>lp_is_active := False\<rparr>]\<rparr>"

subsection \<open>Notions used to state the properties of the rate limiter\<close>




subsection \<open>Example data for the analytics endpoint\<close>





section \<open>Verified properties\<close>

subsection \<open>Queries over tables\<close>

lemma filter_singleton_mem: "filter P xs = [x] \<Longrightarrow> x \<in> set xs \<and> P x"
proof -
  assume "filter P xs = [x]"
  then have "x \<in> set (filter P xs)" by simp
  then show ?thesis by simp
qed

lemma map_replace_absent:
  "\<forall>v \<in> set us. f v \<noteq> k \<Longrightarrow> map (\<lambda>v. if f v = k then u' else v) us = us"
  by (induction us) auto

text \<open>
  Writing a row back under a primary key: a query that found exactly the old row finds
  exactly the new one, provided the new row still satisfies the query.
\<close>

lemma filter_replace_row:
  assumes "distinct (map f us)" and "filter P us = [u]" and "P u'"
  shows "filter P (map (\<lambda>v. if f v = f u then u' else v) us) = [u']"
  using assms
proof (induction us)
  case Nil
  then show ?case by simp
next
  case (Cons v us)
  show ?case
  proof (cases "P v")
    case True
    with Cons.prems(2) have vu: "v = u" and rest: "filter P us = []" by auto
    from Cons.prems(1) vu have "\<forall>w \<in> set us. f w \<noteq> f u" by (auto simp: image_iff)
    then have "map (\<lambda>v. if f v = f u then u' else v) us = us"
      by (rule map_replace_absent)
    with vu rest Cons.prems(3) show ?thesis by simp
  next
    case False
    with Cons.prems(2) have rest: "filter P us = [u]" by simp
    then have "u \<in> set us" using filter_singleton_mem by fastforce
    with Cons.prems(1) have "f v \<noteq> f u" by force
    moreover from Cons.prems(1) have "distinct (map f us)" by simp
    ultimately show ?thesis using Cons.IH rest Cons.prems(3) False by simp
  qed
qed


subsection \<open>Login lockout\<close>

lemmas user_defs = bob_db_def bob_def locked_bob_def admin_db_def admin_def empty_db_def

lemmas login_eval = login_def store_user_def demo_libs_def demo_settings_def lower_def
  lower_char_def Let_def timedelta_minutes_def timedelta_seconds_def
  create_access_token_for_user_def demo_uuid_str_def

text \<open>
  Claim C9, as the code has it.  Let the login request name an existing active user \<open>u\<close>
  (the query by lowercased email finds exactly \<open>u\<close>; user ids are a primary key).  Then:
  \<^item> a wrong password on a user whose \<^verbatim>\<open>failed_login_attempts\<close> holds a number answers
    401 and commits the user with the counter one higher, and with \<^verbatim>\<open>locked_until\<close>
    thirty minutes after \<open>now\<close> once the new count is at least 5;
  \<^item> a wrong password on a user whose counter is \<^verbatim>\<open>NULL\<close> raises \<^verbatim>\<open>TypeError\<close> and
    changes nothing;
  \<^item> the right password on a user whose \<^verbatim>\<open>locked_until\<close> is not \<^verbatim>\<open>NULL\<close> raises
    \<^verbatim>\<open>TypeError\<close> (the response is 500, not 423) and changes nothing, whether that
    instant lies in the future or in the past; so once \<^verbatim>\<open>locked_until\<close> is set, no
    password obtains a token, and no login clears it;
  \<^item> the right password on a user whose \<^verbatim>\<open>locked_until\<close> is \<^verbatim>\<open>NULL\<close> obtains a token
    and commits the user with the counter at 0 and \<^verbatim>\<open>locked_until\<close> still \<^verbatim>\<open>NULL\<close>.
\<close>

theorem login_lockout:
  assumes lookup:
    "filter (\<lambda>v. u_email v = lower (login_email ld) \<and> u_is_active v) (users d) = [u]"
    and pk: "distinct (map u_id (users d))"
  shows
    "(\<forall>failed. \<not> pwd_verify lib (login_password ld) (u_password_hash u) \<and>
         u_failed_login_attempts u = Some failed \<longrightarrow>
        (\<exists>d'. login lib st now ld d = (Inl (HTTPException 401), d') \<and>
           filter (\<lambda>v. u_email v = lower (login_email ld) \<and> u_is_active v) (users d') =
             [u\<lparr>u_failed_login_attempts := Some (failed + 1),
                u_locked_until :=
                  (if failed + 1 \<ge> 5 then Some (now + 1800000000) else u_locked_until u)\<rparr>]))
     \<and> (\<not> pwd_verify lib (login_password ld) (u_password_hash u) \<and>
          u_failed_login_attempts u = None \<longrightarrow>
          login lib st now ld d = (Inl TypeError, d))
     \<and> (pwd_verify lib (login_password ld) (u_password_hash u) \<and> u_locked_until u \<noteq> None \<longrightarrow>
          login lib st now ld d = (Inl TypeError, d))
     \<and> (u_locked_until u \<noteq> None \<longrightarrow>
          (\<forall>tok d'. login lib st now ld d \<noteq> (Inr tok, d')))
     \<and> (pwd_verify lib (login_password ld) (u_password_hash u) \<and> u_locked_until u = None \<longrightarrow>
          (\<exists>tok d'. login lib st now ld d = (Inr tok, d') \<and>
             filter (\<lambda>v. u_email v = lower (login_email ld) \<and> u_is_active v) (users d') =
               [u\<lparr>u_failed_login_attempts := Some 0, u_locked_until := None,
                  u_last_login := Some now\<rparr>]))
     \<and> http_status TypeError = 500"
proof -
  let ?P = "\<lambda>v. u_email v = lower (login_email ld) \<and> u_is_active v"
  let ?right = "pwd_verify lib (login_password ld) (u_password_hash u)"
  from lookup have Pu: "?P u" using filter_singleton_mem by fastforce
  have stored: "filter ?P (users (store_user u' d)) = [u']"
    if "u_id u' = u_id u" and "?P u'" for u'
    using filter_replace_row [OF pk lookup that(2)] that(1) by (simp add: store_user_def)
  have wrong: "\<exists>d'. login lib st now ld d = (Inl (HTTPException 401), d') \<and>
           filter ?P (users d') =
             [u\<lparr>u_failed_login_attempts := Some (failed + 1),
                u_locked_until :=
                  (if failed + 1 \<ge> 5 then Some (now + 1800000000) else u_locked_until u)\<rparr>]"
    if "\<not> ?right \<and> u_failed_login_attempts u = Some failed" for failed
  proof -
    let ?u' = "u\<lparr>u_failed_login_attempts := Some (failed + 1),
                u_locked_until :=
                  (if failed + 1 \<ge> 5 then Some (now + 1800000000) else u_locked_until u)\<rparr>"
    have "login lib st now ld d = (Inl (HTTPException 401), store_user ?u' d)"
      using lookup that by (simp add: login_def Let_def timedelta_minutes_def)
    moreover have "filter ?P (users (store_user ?u' d)) = [?u']"
      using Pu by (intro stored) simp_all
    ultimately show ?thesis by (intro exI [of _ "store_user ?u' d"] conjI)
  qed
  have null: "login lib st now ld d = (Inl TypeError, d)"
    if "\<not> ?right \<and> u_failed_login_attempts u = None"
    using lookup that by (simp add: login_def)
  have aware: "login lib st now ld d = (Inl TypeError, d)"
    if "?right \<and> u_locked_until u \<noteq> None"
    using lookup that by (auto simp: login_def)
  have ok: "\<exists>tok d'. login lib st now ld d = (Inr tok, d') \<and>
             filter ?P (users d') =
               [u\<lparr>u_failed_login_attempts := Some 0, u_locked_until := None,
                  u_last_login := Some now\<rparr>]"
    if "?right \<and> u_locked_until u = None"
  proof -
    let ?u' = "u\<lparr>u_failed_login_attempts := Some 0, u_locked_until := None,
                  u_last_login := Some now\<rparr>"
    have "\<exists>tok. login lib st now ld d = (Inr tok, store_user ?u' d)"
      using lookup that by (simp add: login_def Let_def)
    then obtain tok where "login lib st now ld d = (Inr tok, store_user ?u' d)" ..
    moreover have "filter ?P (users (store_user ?u' d)) = [?u']"
      using Pu by (intro stored) simp_all
    ultimately show ?thesis by (intro exI [of _ tok] exI [of _ "store_user ?u' d"] conjI)
  qed
  have never: "\<forall>tok d'. login lib st now ld d \<noteq> (Inr tok, d')" if set: "u_locked_until u \<noteq> None"
  proof (cases "?right")
    case True
    with set show ?thesis using aware by simp
  next
    case False
    show ?thesis
    proof (cases "u_failed_login_attempts u")
      case None
      with False show ?thesis using null by simp
    next
      case (Some failed)
      with False have "\<not> ?right \<and> u_failed_login_attempts u = Some failed" by simp
      from wrong [OF this] obtain d' where
        "login lib st now ld d = (Inl (HTTPException 401), d')"
        by (elim exE conjE) (rule that; assumption)
      then show ?thesis by simp
    qed
  qed
  show ?thesis
  proof (intro conjI allI impI)
    fix failed
    assume "\<not> ?right \<and> u_failed_login_attempts u = Some failed"
    then show "\<exists>d'. login lib st now ld d = (Inl (HTTPException 401), d') \<and>
           filter ?P (users d') =
             [u\<lparr>u_failed_login_attempts := Some (failed + 1),
                u_locked_until :=
                  (if failed + 1 \<ge> 5 then Some (now + 1800000000) else u_locked_until u)\<rparr>]"
      by (rule wrong)
  next
    assume "\<not> ?right \<and> u_failed_login_attempts u = None"
    then show "login lib st now ld d = (Inl TypeError, d)" by (rule null)
  next
    assume "?right \<and> u_locked_until u \<noteq> None"
    then show "login lib st now ld d = (Inl TypeError, d)" by (rule aware)
  next
    fix tok d'
    assume "u_locked_until u \<noteq> None"
    then show "login lib st now ld d \<noteq> (Inr tok, d')" using never by simp
  next
    assume "?right \<and> u_locked_until u = None"
    then show "\<exists>tok d'. login lib st now ld d = (Inr tok, d') \<and>
             filter ?P (users d') =
               [u\<lparr>u_failed_login_attempts := Some 0, u_locked_until := None,
                  u_last_login := Some now\<rparr>]"
      by (rule ok)
  next
    show "http_status TypeError = 500" by simp
  qed
qed

theorem login_lockout_witness:
  "fst (login demo_libs demo_settings 1000
       \<lparr>login_email = ''Bob@X.com'', login_password = ''guess''\<rparr> bob_db) =
     Inl (HTTPException 401)
   \<and> users (snd (login demo_libs demo_settings 1000
       \<lparr>login_email = ''Bob@X.com'', login_password = ''guess''\<rparr> bob_db)) = [locked_bob]
   \<and> login demo_libs demo_settings 2000
       \<lparr>login_email = ''bob@x.com'', login_password = ''Passw0rd!''\<rparr>
       (bob_db\<lparr>users := [locked_bob]\<rparr>) =
     (Inl TypeError, bob_db\<lparr>users := [locked_bob]\<rparr>)
   \<and> login demo_libs demo_settings 3600000000
       \<lparr>login_email = ''bob@x.com'', login_password = ''Passw0rd!''\<rparr>
       (bob_db\<lparr>users := [locked_bob]\<rparr>) =
     (Inl TypeError, bob_db\<lparr>users := [locked_bob]\<rparr>)
   \<and> login demo_libs demo_settings 1000
       \<lparr>login_email = ''admin@x.com'', login_password = ''guess''\<rparr> admin_db =
     (Inl TypeError, admin_db)
   \<and> users (snd (login demo_libs demo_settings 1000
       \<lparr>login_email = ''bob@x.com'', login_password = ''Passw0rd!''\<rparr> bob_db)) =
       [bob\<lparr>u_failed_login_attempts := Some 0, u_locked_until := None,
            u_last_login := Some 1000\<rparr>]
   \<and> http_status TypeError = 500"
proof -
  let ?guess = "\<lparr>login_email = ''Bob@X.com'', login_password = ''guess''\<rparr>"
  let ?right = "\<lparr>login_email = ''bob@x.com'', login_password = ''Passw0rd!''\<rparr>"
  let ?admin = "\<lparr>login_email = ''admin@x.com'', login_password = ''guess''\<rparr>"
  let ?P = "\<lambda>ld v. u_email v = lower (login_email ld) \<and> u_is_active v"
  have l1: "filter (?P ?guess) (users bob_db) = [bob]"
    and l2: "filter (?P ?right) (users (bob_db\<lparr>users := [locked_bob]\<rparr>)) = [locked_bob]"
    and l3: "filter (?P ?admin) (users admin_db) = [admin]"
    and l4: "filter (?P ?right) (users bob_db) = [bob]"
    by (simp_all add: user_defs lower_def lower_char_def)
  have k1: "distinct (map u_id (users bob_db))"
    and k2: "distinct (map u_id (users (bob_db\<lparr>users := [locked_bob]\<rparr>)))"
    and k3: "distinct (map u_id (users admin_db))"
    by (simp_all add: user_defs)
  note t1 = login_lockout [OF l1 k1, where lib = demo_libs and st = demo_settings and now = 1000]
  note t2 = login_lockout [OF l2 k2, where lib = demo_libs and st = demo_settings and now = 2000]
  note t2' = login_lockout [OF l2 k2, where lib = demo_libs and st = demo_settings
      and now = 3600000000]
  note t3 = login_lockout [OF l3 k3, where lib = demo_libs and st = demo_settings and now = 1000]
  note t4 = login_lockout [OF l4 k1, where lib = demo_libs and st = demo_settings and now = 1000]
  have "\<not> pwd_verify demo_libs (login_password ?guess) (u_password_hash bob) \<and>
        u_failed_login_attempts bob = Some 4"
    by (simp add: demo_libs_def bob_def)
  from t1 [THEN conjunct1, rule_format, OF this]
  obtain d' where r1: "login demo_libs demo_settings 1000 ?guess bob_db =
        (Inl (HTTPException 401), d')"
    and u1: "filter (?P ?guess) (users d') =
        [bob\<lparr>u_failed_login_attempts := Some (4 + 1),
             u_locked_until := (if (4::int) + 1 \<ge> 5 then Some (1000 + 1800000000)
                                else u_locked_until bob)\<rparr>]"
    by (elim exE conjE) (rule that; assumption)
  have a2: "users (snd (login demo_libs demo_settings 1000 ?guess bob_db)) = [locked_bob]"
    by (simp add: login_eval user_defs)
  from r1 have a1: "fst (login demo_libs demo_settings 1000 ?guess bob_db) =
      Inl (HTTPException 401)" by simp
  have right2: "pwd_verify demo_libs (login_password ?right) (u_password_hash locked_bob) \<and>
        u_locked_until locked_bob \<noteq> None"
    by (simp add: demo_libs_def user_defs)
  have b1: "login demo_libs demo_settings 2000 ?right (bob_db\<lparr>users := [locked_bob]\<rparr>) =
     (Inl TypeError, bob_db\<lparr>users := [locked_bob]\<rparr>)"
    by (rule t2 [THEN conjunct2, THEN conjunct2, THEN conjunct1, THEN mp, OF right2])
  have b2: "login demo_libs demo_settings 3600000000 ?right (bob_db\<lparr>users := [locked_bob]\<rparr>) =
     (Inl TypeError, bob_db\<lparr>users := [locked_bob]\<rparr>)"
    by (rule t2' [THEN conjunct2, THEN conjunct2, THEN conjunct1, THEN mp, OF right2])
  have "\<not> pwd_verify demo_libs (login_password ?admin) (u_password_hash admin) \<and>
        u_failed_login_attempts admin = None"
    by (simp add: demo_libs_def user_defs)
  from t3 [THEN conjunct2, THEN conjunct1, THEN mp, OF this]
  have c: "login demo_libs demo_settings 1000 ?admin admin_db = (Inl TypeError, admin_db)" .
  have "pwd_verify demo_libs (login_password ?right) (u_password_hash bob) \<and>
        u_locked_until bob = None"
    by (simp add: demo_libs_def user_defs)
  from t4 [THEN conjunct2, THEN conjunct2, THEN conjunct2, THEN conjunct2, THEN conjunct1,
           THEN mp, OF this]
  obtain tok d'' where r4: "login demo_libs demo_settings 1000 ?right bob_db = (Inr tok, d'')"
    by (elim exE conjE) (rule that; assumption)
  have e: "users (snd (login demo_libs demo_settings 1000 ?right bob_db)) =
       [bob\<lparr>u_failed_login_attempts := Some 0, u_locked_until := None,
            u_last_login := Some 1000\<rparr>]"
    by (simp add: login_eval user_defs)
  have f: "http_status TypeError = 500"
    by (rule t4 [THEN conjunct2, THEN conjunct2, THEN conjunct2, THEN conjunct2, THEN conjunct2])
  from a1 a2 b1 b2 c e f show ?thesis by (intro conjI)
qed

subsection \<open>Updating module progress\<close>

lemmas learn_defs = learn_db_def done_db_def alice_done_def alice_progress_def alice_path_def
  module_one_def module_two_def game_path_def badge_types_def empty_db_def

lemma py_int_of_int: "py_int (real_of_int i) = i"
  by (simp add: py_int_def)

lemma py_int_mono: "x \<le> y \<Longrightarrow> py_int x \<le> py_int y"
proof -
  assume le: "x \<le> y"
  show ?thesis
  proof (cases "0 \<le> x")
    case True
    with le have "0 \<le> y" by simp
    with True le show ?thesis by (simp add: py_int_def floor_mono)
  next
    case False
    then have neg: "\<lceil>x\<rceil> \<le> 0" by (simp add: ceiling_le_zero)
    show ?thesis
    proof (cases "0 \<le> y")
      case True
      then have "0 \<le> \<lfloor>y\<rfloor>" by simp
      with neg have "\<lceil>x\<rceil> \<le> \<lfloor>y\<rfloor>" by linarith
      with \<open>\<not> 0 \<le> x\<close> True show ?thesis by (simp add: py_int_def)
    next
      case False
      with \<open>\<not> 0 \<le> x\<close> le show ?thesis by (simp add: py_int_def ceiling_mono)
    qed
  qed
qed

lemma progress_after_update_simps [simp]:
  "smp_progress_percentage (progress_after_update conv p pct mins nts now) =
     (if real_of_int (smp_progress_percentage p) < pct then conv pct
      else smp_progress_percentage p)"
  "smp_time_spent_minutes (progress_after_update conv p pct mins nts now) =
     smp_time_spent_minutes p + mins"
  "smp_status (progress_after_update conv p pct mins nts now) = smp_status p"
  "smp_id (progress_after_update conv p pct mins nts now) = smp_id p"
  "smp_student_id (progress_after_update conv p pct mins nts now) = smp_student_id p"
  "smp_module_id (progress_after_update conv p pct mins nts now) = smp_module_id p"
  "smp_student_path_id (progress_after_update conv p pct mins nts now) = smp_student_path_id p"
  "smp_completed_at (progress_after_update conv p pct mins nts now) = smp_completed_at p"
  by (simp_all add: progress_after_update_def Let_def split: option.splits)

text \<open>
  With one progress record for the module, \<^verbatim>\<open>update_module_progress\<close> either commits
  the updated row or, when the call would complete the module, raises.
\<close>

lemma update_module_progress_cases:
  assumes lookup:
    "filter (\<lambda>q. smp_student_id q = sid \<and> smp_module_id q = mid)
       (student_module_progress d) = [p]"
  shows "update_module_progress conv sid mid pct mins nts now ids d =
     (if max (real_of_int (smp_progress_percentage p)) pct < 100 \<or> smp_status p = ''completed''
      then Inr (progress_after_update conv p pct mins nts now,
                max (real_of_int (smp_progress_percentage p)) pct,
                store_progress (progress_after_update conv p pct mins nts now) d)
      else Inl InvalidRequestError)"
proof (cases nts)
  case None
  with lookup show ?thesis
    by (auto simp: update_module_progress_def update_path_progress_def
          progress_after_update_def Let_def not_le)
next
  case (Some n)
  with lookup show ?thesis
    by (cases "n = []")
       (auto simp: update_module_progress_def update_path_progress_def
          progress_after_update_def Let_def not_le)
qed

lemma update_module_progress_lookup:
  assumes "update_module_progress conv sid mid pct mins nts now ids d = Inr r"
  obtains p where "filter (\<lambda>q. smp_student_id q = sid \<and> smp_module_id q = mid)
       (student_module_progress d) = [p]"
proof (cases "filter (\<lambda>q. smp_student_id q = sid \<and> smp_module_id q = mid)
       (student_module_progress d)" rule: scalar_one_or_none.cases)
  case 1
  with assms show ?thesis by (simp add: update_module_progress_def)
next
  case (2 x)
  then show ?thesis by (rule that)
next
  case (3 x y zs)
  with assms show ?thesis by (simp add: update_module_progress_def)
qed

lemma update_module_progress_stores:
  assumes ok: "update_module_progress conv sid mid pct mins nts now ids d = Inr (p', x, d')"
  shows "d' = store_progress p' d"
proof -
  from ok obtain p where
    lookup: "filter (\<lambda>q. smp_student_id q = sid \<and> smp_module_id q = mid)
       (student_module_progress d) = [p]"
    by (rule update_module_progress_lookup)
  from ok show ?thesis
    unfolding update_module_progress_cases [OF lookup] by (auto split: if_splits)
qed

lemma apply_updates_frame:
  "student_achievements (apply_updates conv calls d) = student_achievements d \<and>
   student_learning_paths (apply_updates conv calls d) = student_learning_paths d"
proof (induction calls arbitrary: d)
  case Nil
  show ?case by simp
next
  case (Cons c calls)
  obtain sid mid pct mins nts now ids where c: "c = (sid, mid, pct, mins, nts, now, ids)"
    by (cases c) auto
  show ?case
  proof (cases "update_module_progress conv sid mid pct mins nts now ids d")
    case (Inl e)
    with c Cons show ?thesis by simp
  next
    case (Inr r)
    obtain p' x d' where r: "r = (p', x, d')" by (cases r) auto
    from Inr r have "d' = store_progress p' d" by (simp add: update_module_progress_stores)
    then have "student_achievements d' = student_achievements d"
      "student_learning_paths d' = student_learning_paths d"
      by (simp_all add: store_progress_def)
    with Cons.IH [of d'] c Inr r show ?thesis by simp
  qed
qed

text \<open>
  Claim C8, as the code has it.  Let the student have exactly one progress record \<open>p\<close>
  for the module, and let the driver's conversion to an integer column leave integers as
  they are and keep the order of numbers.
  \<^item> Whenever \<^verbatim>\<open>update_module_progress\<close> returns, the returned object carries the maximum
    of the old and the supplied percentage, and the committed row holds the old
    percentage when the supplied value is not larger and the supplied value converted to
    an integer otherwise: a number that is not below the old percentage, and that is not
    the maximum when the supplied value is larger and not integral (60.5 is stored as
    60).  The row's \<^verbatim>\<open>time_spent_minutes\<close>
    has grown by the supplied minutes, its status is the old one, and the committed table
    holds the row in place of \<open>p\<close>.
  \<^item> The call returns exactly when it completes nothing (the maximum is below 100, or the
    record was completed before).  A call that would complete the module (the maximum is
    at least 100, the status is not \<^verbatim>\<open>completed\<close>) raises \<^verbatim>\<open>InvalidRequestError\<close>, and
    the database stays as it was: the percentage does not become the maximum.
  \<^item> \<^verbatim>\<open>start_module\<close>, the other writer of the record, keeps the percentage and a status
    \<^verbatim>\<open>completed\<close>.
\<close>

theorem module_progress_monotone:
  assumes lookup:
    "filter (\<lambda>q. smp_student_id q = sid \<and> smp_module_id q = mid)
       (student_module_progress d) = [p]"
    and ints: "\<forall>i. conv (real_of_int i) = i"
    and mono: "\<forall>x y. x \<le> y \<longrightarrow> conv x \<le> conv y"
  shows
    "(\<forall>p' x d'. update_module_progress conv sid mid pct mins nts now ids d = Inr (p', x, d') \<longrightarrow>
        x = max (real_of_int (smp_progress_percentage p)) pct \<and>
        smp_progress_percentage p' =
          (if real_of_int (smp_progress_percentage p) < pct then conv pct
           else smp_progress_percentage p) \<and>
        smp_progress_percentage p \<le> smp_progress_percentage p' \<and>
        (pct \<le> real_of_int (smp_progress_percentage p) \<longrightarrow>
           smp_progress_percentage p' = smp_progress_percentage p) \<and>
        smp_time_spent_minutes p' = smp_time_spent_minutes p + mins \<and>
        smp_status p' = smp_status p \<and>
        student_module_progress d' =
          map (\<lambda>q. if smp_id q = smp_id p then p' else q) (student_module_progress d))
     \<and> (max (real_of_int (smp_progress_percentage p)) pct < 100 \<or>
          smp_status p = ''completed'' \<longrightarrow>
          (\<exists>p' x d'. update_module_progress conv sid mid pct mins nts now ids d =
                        Inr (p', x, d')))
     \<and> (100 \<le> max (real_of_int (smp_progress_percentage p)) pct \<and>
          smp_status p \<noteq> ''completed'' \<longrightarrow>
          update_module_progress conv sid mid pct mins nts now ids d =
            Inl InvalidRequestError)
     \<and> (\<forall>new_id p' d'. start_module sid mid now new_id d = Inr (p', d') \<longrightarrow>
          smp_progress_percentage p' = smp_progress_percentage p \<and>
          (smp_status p = ''completed'' \<longrightarrow> smp_status p' = ''completed''))"
proof -
  let ?new = "max (real_of_int (smp_progress_percentage p)) pct"
  let ?row = "progress_after_update conv p pct mins nts now"
  note run = update_module_progress_cases [OF lookup, where conv = conv and pct = pct
      and mins = mins and nts = nts and now = now and ids = ids]
  let ?stored = "if real_of_int (smp_progress_percentage p) < pct then conv pct
                 else smp_progress_percentage p"
  have grows: "smp_progress_percentage p \<le> ?stored"
  proof (cases "real_of_int (smp_progress_percentage p) < pct")
    case True
    then have "real_of_int (smp_progress_percentage p) \<le> pct" by simp
    with mono have "conv (real_of_int (smp_progress_percentage p)) \<le> conv pct" by blast
    with ints True show ?thesis by simp
  next
    case False
    then show ?thesis by simp
  qed
  have keeps: "?stored = smp_progress_percentage p"
    if "pct \<le> real_of_int (smp_progress_percentage p)"
    using that by simp
  have returned: "p' = ?row \<and> x = ?new \<and> d' = store_progress ?row d"
    if "update_module_progress conv sid mid pct mins nts now ids d = Inr (p', x, d')"
    for p' x d'
    using that unfolding run by (auto split: if_splits)
  show ?thesis
  proof (intro conjI allI impI)
    fix p' x d'
    assume ok: "update_module_progress conv sid mid pct mins nts now ids d = Inr (p', x, d')"
    note r = returned [OF ok]
    from r show "x = ?new" by simp
    from r show "smp_progress_percentage p' = ?stored" by simp
    from r grows show "smp_progress_percentage p \<le> smp_progress_percentage p'" by simp
    from r show "smp_time_spent_minutes p' = smp_time_spent_minutes p + mins" by simp
    from r show "smp_status p' = smp_status p" by simp
    from r show "student_module_progress d' =
          map (\<lambda>q. if smp_id q = smp_id p then p' else q) (student_module_progress d)"
      by (simp add: store_progress_def)
    from r keeps show "smp_progress_percentage p' = smp_progress_percentage p"
      if "pct \<le> real_of_int (smp_progress_percentage p)" using that by simp
  next
    assume "?new < 100 \<or> smp_status p = ''completed''"
    then show "\<exists>p' x d'. update_module_progress conv sid mid pct mins nts now ids d =
                        Inr (p', x, d')"
      unfolding run by simp
  next
    assume "100 \<le> ?new \<and> smp_status p \<noteq> ''completed''"
    then show "update_module_progress conv sid mid pct mins nts now ids d =
            Inl InvalidRequestError"
      unfolding run by (simp add: not_less [symmetric])
  next
    fix new_id p' d'
    assume ok: "start_module sid mid now new_id d = Inr (p', d')"
    then have "p' = p\<lparr>smp_last_accessed := now\<rparr> \<or>
             (smp_status p = ''not_started'' \<and>
              p' = p\<lparr>smp_status := ''in_progress'', smp_started_at := Some now,
                     smp_last_accessed := now\<rparr>)"
      using lookup
      by (auto simp: start_module_def Let_def split: sum.splits option.splits bool.splits if_splits)
    then have keeps: "smp_progress_percentage p' = smp_progress_percentage p"
      and stays: "smp_status p = ''completed'' \<Longrightarrow> smp_status p' = ''completed''"
      by auto
    show "smp_progress_percentage p' = smp_progress_percentage p" by (rule keeps)
    show "smp_status p' = ''completed''" if "smp_status p = ''completed''"
      using that by (rule stays)
  qed
qed

theorem module_progress_monotone_witness:
  "(\<exists>p' x d'. update_module_progress py_int 2 11 25 5 None 1000 (50, 51, 52) learn_db =
        Inr (p', x, d') \<and>
       x = 40 \<and> smp_progress_percentage p' = 40 \<and> smp_time_spent_minutes p' = 15)
   \<and> (\<exists>p' x d'. update_module_progress py_int 2 11 (121 / 2) 5 None 1000 (50, 51, 52) learn_db =
        Inr (p', x, d') \<and>
       x = 121 / 2 \<and> smp_progress_percentage p' = 60)
   \<and> update_module_progress py_int 2 11 100 5 None 1000 (50, 51, 52) learn_db =
       Inl InvalidRequestError
   \<and> (\<exists>p' d'. start_module 2 11 1000 31 done_db = Inr (p', d') \<and>
       smp_progress_percentage p' = 100 \<and> smp_status p' = ''completed'')"
proof -
  have l1: "filter (\<lambda>q. smp_student_id q = 2 \<and> smp_module_id q = 11)
              (student_module_progress learn_db) = [alice_progress]"
    by (simp add: learn_defs)
  have l2: "filter (\<lambda>q. smp_student_id q = 2 \<and> smp_module_id q = 11)
              (student_module_progress done_db) = [alice_done]"
    by (simp add: learn_defs)
  have ints: "\<forall>i. py_int (real_of_int i) = i" by (simp add: py_int_of_int)
  have mono: "\<forall>x y. x \<le> y \<longrightarrow> py_int x \<le> py_int y" by (simp add: py_int_mono)
  have v1: "smp_progress_percentage alice_progress = 40"
    "smp_time_spent_minutes alice_progress = 10" "smp_status alice_progress = ''in_progress''"
    by (simp_all add: learn_defs)
  have v2: "smp_progress_percentage alice_done = 100" "smp_status alice_done = ''completed''"
    by (simp_all add: learn_defs)
  note t1 = module_progress_monotone [OF l1 ints mono, where pct = 25 and mins = 5
      and nts = None and now = 1000 and ids = "(50, 51, 52)"]
  note t2 = module_progress_monotone [OF l1 ints mono, where pct = "121 / 2" and mins = 5
      and nts = None and now = 1000 and ids = "(50, 51, 52)"]
  note t3 = module_progress_monotone [OF l1 ints mono, where pct = 100 and mins = 5
      and nts = None and now = 1000 and ids = "(50, 51, 52)"]
  note t4 = module_progress_monotone [OF l2 ints mono, where pct = 100 and mins = 5
      and nts = None and now = 1000 and ids = "(50, 51, 52)"]
  have "max (real_of_int (smp_progress_percentage alice_progress)) 25 < 100 \<or>
        smp_status alice_progress = ''completed''"
    by (simp add: v1)
  from t1 [THEN conjunct2, THEN conjunct1, THEN mp, OF this]
  obtain p' x d' where r1: "update_module_progress py_int 2 11 25 5 None 1000 (50, 51, 52) learn_db =
        Inr (p', x, d')"
    by (elim exE) (rule that; assumption)
  from t1 [THEN conjunct1, rule_format, OF r1] v1
  have "x = 40 \<and> smp_progress_percentage p' = 40 \<and> smp_time_spent_minutes p' = 15"
    by simp
  with r1 have a: "\<exists>p' x d'. update_module_progress py_int 2 11 25 5 None 1000 (50, 51, 52) learn_db =
        Inr (p', x, d') \<and>
       x = 40 \<and> smp_progress_percentage p' = 40 \<and> smp_time_spent_minutes p' = 15"
    by (intro exI [of _ p'] exI [of _ x] exI [of _ d']) simp
  have "max (real_of_int (smp_progress_percentage alice_progress)) (121 / 2) < 100 \<or>
        smp_status alice_progress = ''completed''"
    by (simp add: v1)
  from t2 [THEN conjunct2, THEN conjunct1, THEN mp, OF this]
  obtain q' y e' where r2: "update_module_progress py_int 2 11 (121 / 2) 5 None 1000 (50, 51, 52)
        learn_db = Inr (q', y, e')"
    by (elim exE) (rule that; assumption)
  from t2 [THEN conjunct1, rule_format, OF r2] v1
  have "y = 121 / 2 \<and> smp_progress_percentage q' = 60"
    by (simp add: py_int_def)
  with r2 have b: "\<exists>p' x d'. update_module_progress py_int 2 11 (121 / 2) 5 None 1000 (50, 51, 52)
        learn_db = Inr (p', x, d') \<and> x = 121 / 2 \<and> smp_progress_percentage p' = 60"
    by (intro exI [of _ q'] exI [of _ y] exI [of _ e']) simp
  have "100 \<le> max (real_of_int (smp_progress_percentage alice_progress)) 100 \<and>
        smp_status alice_progress \<noteq> ''completed''"
    by (simp add: v1)
  from t3 [THEN conjunct2, THEN conjunct2, THEN conjunct1, THEN mp, OF this]
  have c: "update_module_progress py_int 2 11 100 5 None 1000 (50, 51, 52) learn_db =
       Inl InvalidRequestError" .
  have "\<exists>p' d'. start_module 2 11 1000 31 done_db = Inr (p', d')"
    by (simp add: start_module_def is_module_locked_def learn_defs Let_def)
  then obtain s' f' where r4: "start_module 2 11 1000 31 done_db = Inr (s', f')"
    by (elim exE) (rule that; assumption)
  from t4 [THEN conjunct2, THEN conjunct2, THEN conjunct2, rule_format, OF r4] v2
  have "smp_progress_percentage s' = 100 \<and> smp_status s' = ''completed''"
    by simp
  with r4 have e: "\<exists>p' d'. start_module 2 11 1000 31 done_db = Inr (p', d') \<and>
       smp_progress_percentage p' = 100 \<and> smp_status p' = ''completed''"
    by (intro exI [of _ s'] exI [of _ f']) simp
  from a b c e show ?thesis by (intro conjI)
qed

subsection \<open>Path progress after a completion\<close>

text \<open>
  Claim C6, as the code has it.  The path record is never recomputed.  A call of
  \<^verbatim>\<open>update_module_progress\<close> that brings the one, not yet completed progress record of
  the module to 100 or more raises \<^verbatim>\<open>InvalidRequestError\<close> out of
  \<^verbatim>\<open>_update_path_progress\<close> (a 500 response), the module is not completed, and the
  database is the one before the call.  Whatever the calls of \<^verbatim>\<open>update_module_progress\<close>
  are, the table \<^verbatim>\<open>student_learning_paths\<close> stays as it was: no \<^verbatim>\<open>progress_percentage\<close>,
  \<^verbatim>\<open>started_at\<close> or \<^verbatim>\<open>completed_at\<close> is ever written.
\<close>

theorem path_progress_never_recomputed:
  "(\<forall>p. filter (\<lambda>q. smp_student_id q = sid \<and> smp_module_id q = mid)
             (student_module_progress d) = [p] \<and>
          smp_status p \<noteq> ''completed'' \<and>
          100 \<le> max (real_of_int (smp_progress_percentage p)) pct \<longrightarrow>
          update_module_progress conv sid mid pct mins nts now ids d = Inl InvalidRequestError \<and>
          http_status InvalidRequestError = 500 \<and>
          apply_updates conv [(sid, mid, pct, mins, nts, now, ids)] d = d)
   \<and> update_path_progress sid student_path_id now d = Inl InvalidRequestError
   \<and> student_learning_paths (apply_updates conv calls d) = student_learning_paths d"
proof (intro conjI allI impI)
  fix p
  assume h: "filter (\<lambda>q. smp_student_id q = sid \<and> smp_module_id q = mid)
             (student_module_progress d) = [p] \<and>
          smp_status p \<noteq> ''completed'' \<and>
          100 \<le> max (real_of_int (smp_progress_percentage p)) pct"
  then have lookup: "filter (\<lambda>q. smp_student_id q = sid \<and> smp_module_id q = mid)
             (student_module_progress d) = [p]" by simp
  from h show raised: "update_module_progress conv sid mid pct mins nts now ids d =
      Inl InvalidRequestError"
    unfolding update_module_progress_cases [OF lookup] by (simp add: not_less [symmetric])
  then show "apply_updates conv [(sid, mid, pct, mins, nts, now, ids)] d = d" by simp
  show "http_status InvalidRequestError = 500" by simp
next
  show "update_path_progress sid student_path_id now d = Inl InvalidRequestError"
    by (simp add: update_path_progress_def)
next
  show "student_learning_paths (apply_updates conv calls d) = student_learning_paths d"
    by (rule apply_updates_frame [THEN conjunct2])
qed

theorem path_progress_never_recomputed_witness:
  "update_module_progress py_int 2 11 100 5 None 1000 (50, 51, 52) learn_db =
     Inl InvalidRequestError
   \<and> apply_updates py_int [(2, 11, 100, 5, None, 1000, (50, 51, 52))] learn_db = learn_db
   \<and> student_learning_paths
       (apply_updates py_int [(2, 11, 100, 5, None, 1000, (50, 51, 52)),
                              (2, 11, 100, 0, None, 2000, (53, 54, 55))] learn_db) =
       [alice_path]"
proof -
  have h: "filter (\<lambda>q. smp_student_id q = 2 \<and> smp_module_id q = 11)
             (student_module_progress learn_db) = [alice_progress] \<and>
          smp_status alice_progress \<noteq> ''completed'' \<and>
          100 \<le> max (real_of_int (smp_progress_percentage alice_progress)) 100"
    by (simp add: learn_defs)
  note t = path_progress_never_recomputed [where sid = 2 and mid = 11 and d = learn_db
      and pct = 100 and conv = py_int and mins = 5 and nts = None and now = 1000
      and ids = "(50, 51, 52)"
      and calls = "[(2, 11, 100, 5, None, 1000, (50, 51, 52)),
                    (2, 11, 100, 0, None, 2000, (53, 54, 55))]"]
  note r = t [THEN conjunct1, rule_format, OF h]
  have "student_learning_paths learn_db = [alice_path]" by (simp add: learn_defs)
  with t [THEN conjunct2, THEN conjunct2] r show ?thesis by simp
qed

subsection \<open>Achievements\<close>

lemma award_frame:
  assumes "award_achievement_if_new sid name now i d = Inr d'"
  shows "same_but_achievements d d'"
  using assms
  by (auto simp: award_achievement_if_new_def same_but_achievements_def
           split: sum.splits option.splits)

lemma filter_key_cases:
  assumes "distinct (map f xs)"
  shows "filter (\<lambda>x. f x = k) xs = [] \<or> (\<exists>x. filter (\<lambda>x. f x = k) xs = [x])"
  using assms
proof (induction xs)
  case Nil
  then show ?case by simp
next
  case (Cons y ys)
  show ?case
  proof (cases "f y = k")
    case True
    with Cons.prems have "\<forall>z \<in> set ys. f z \<noteq> k" by (auto simp: image_iff)
    then have "filter (\<lambda>x. f x = k) ys = []" by (simp add: filter_empty_conv)
    with True show ?thesis by simp
  next
    case False
    with Cons show ?thesis by simp
  qed
qed

lemma achievements_filter_key:
  "filter (\<lambda>a. sa_student_id a = sid \<and> sa_achievement_type_id a = tid) achs =
   filter (\<lambda>a. achievement_key a = (sid, tid)) achs"
  by (simp add: achievement_key_def)

lemma award_cases:
  assumes "award_achievement_if_new sid name now i d = Inr d'"
  obtains (unchanged) "d' = d"
  | (granted) ty where
      "filter (\<lambda>t. at_name t = name) (achievement_types d) = [ty]"
      "filter (\<lambda>a. achievement_key a = (sid, at_id ty)) (student_achievements d) = []"
      "d' = d\<lparr>student_achievements := student_achievements d @
              [\<lparr>sa_id = i, sa_student_id = sid, sa_achievement_type_id = at_id ty,
                sa_earned_at = now\<rparr>]\<rparr>"
proof (cases "filter (\<lambda>t. at_name t = name) (achievement_types d)")
  case Nil
  with assms have "d' = d" by (simp add: award_achievement_if_new_def)
  then show ?thesis by (rule unchanged)
next
  case (Cons ty rest)
  note tys = Cons
  show ?thesis
  proof (cases rest)
    case Nil
    note rest = Nil
    show ?thesis
    proof (cases "filter (\<lambda>a. achievement_key a = (sid, at_id ty)) (student_achievements d)")
      case Nil
      with assms tys rest have
        "d' = d\<lparr>student_achievements := student_achievements d @
              [\<lparr>sa_id = i, sa_student_id = sid, sa_achievement_type_id = at_id ty,
                sa_earned_at = now\<rparr>]\<rparr>"
        by (simp add: award_achievement_if_new_def achievements_filter_key)
      with tys rest Nil show ?thesis by (intro granted [of ty]) simp_all
    next
      case (Cons a as)
      with assms tys rest have "d' = d"
        by (cases as) (simp_all add: award_achievement_if_new_def achievements_filter_key)
      then show ?thesis by (rule unchanged)
    qed
  next
    case (Cons ty2 rest2)
    with assms tys show ?thesis by (simp add: award_achievement_if_new_def)
  qed
qed

lemma award_at_most_once:
  assumes "award_achievement_if_new sid name now i d = Inr d'" and "at_most_once d"
  shows "at_most_once d'"
  using assms(1)
proof (cases rule: award_cases)
  case unchanged
  with assms(2) show ?thesis by simp
next
  case (granted ty)
  from granted(2) have "(sid, at_id ty) \<notin> set (map achievement_key (student_achievements d))"
    by (auto simp: filter_empty_conv)
  with assms(2) granted(3) show ?thesis
    by (simp add: at_most_once_def achievement_key_def)
qed

lemma at_most_once_count:
  assumes "at_most_once d"
  shows "length (filter (\<lambda>a. sa_student_id a = sid \<and> sa_achievement_type_id a = tid)
                   (student_achievements d)) \<le> 1"
proof -
  from assms have "distinct (map achievement_key (student_achievements d))"
    by (simp add: at_most_once_def)
  from filter_key_cases [OF this, of "(sid, tid)"] show ?thesis
    by (auto simp: achievements_filter_key)
qed

lemma distinct_map_eq:
  "distinct (map f xs) \<Longrightarrow> x \<in> set xs \<Longrightarrow> y \<in> set xs \<Longrightarrow> f x = f y \<Longrightarrow> x = y"
  by (meson distinct_map inj_onD)

lemma holds_badge_iff:
  "holds_badge s n d \<longleftrightarrow>
     (\<exists>ty \<in> set (achievement_types d). at_name ty = n \<and>
        (\<exists>a \<in> set (student_achievements d).
           sa_student_id a = s \<and> sa_achievement_type_id a = at_id ty))"
  by (auto simp: holds_badge_def list_ex_iff)

lemma badge_type_exists_iff:
  "badge_type_exists n d \<longleftrightarrow> (\<exists>ty \<in> set (achievement_types d). at_name ty = n)"
  by (auto simp: badge_type_exists_def list_ex_iff)

lemma award_holds:
  assumes names: "distinct (map at_name (achievement_types d))"
    and ids: "distinct (map at_id (achievement_types d))"
    and once: "at_most_once d"
  shows "\<exists>d'. award_achievement_if_new sid name now i d = Inr d' \<and>
           (\<forall>s n. holds_badge s n d' \<longleftrightarrow>
                    holds_badge s n d \<or> (s = sid \<and> n = name \<and> badge_type_exists name d))"
proof -
  from filter_key_cases [OF names, of name]
  consider (none) "filter (\<lambda>t. at_name t = name) (achievement_types d) = []"
    | (one) ty where "filter (\<lambda>t. at_name t = name) (achievement_types d) = [ty]"
    by blast
  then show ?thesis
  proof cases
    case none
    then have "\<not> badge_type_exists name d"
      by (auto simp: badge_type_exists_iff filter_empty_conv)
    moreover from none have "award_achievement_if_new sid name now i d = Inr d"
      by (simp add: award_achievement_if_new_def)
    ultimately show ?thesis by simp
  next
    case one
    then have ty: "ty \<in> set (achievement_types d)" "at_name ty = name"
      using filter_singleton_mem by fastforce+
    then have ex: "badge_type_exists name d" by (auto simp: badge_type_exists_iff)
    from once have "distinct (map achievement_key (student_achievements d))"
      by (simp add: at_most_once_def)
    from filter_key_cases [OF this, of "(sid, at_id ty)"]
    consider (new) "filter (\<lambda>a. achievement_key a = (sid, at_id ty)) (student_achievements d) = []"
      | (held) a where
          "filter (\<lambda>a. achievement_key a = (sid, at_id ty)) (student_achievements d) = [a]"
      by blast
    then show ?thesis
    proof cases
      case held
      then have "a \<in> set (student_achievements d)" "achievement_key a = (sid, at_id ty)"
        using filter_singleton_mem by fastforce+
      with ty have "holds_badge sid name d"
        by (auto simp: holds_badge_iff achievement_key_def)
      moreover from one held have "award_achievement_if_new sid name now i d = Inr d"
        by (simp add: award_achievement_if_new_def achievements_filter_key)
      ultimately show ?thesis by auto
    next
      case new
      let ?row = "\<lparr>sa_id = i, sa_student_id = sid, sa_achievement_type_id = at_id ty,
                    sa_earned_at = now\<rparr>"
      let ?d' = "d\<lparr>student_achievements := student_achievements d @ [?row]\<rparr>"
      from one new have aw: "award_achievement_if_new sid name now i d = Inr ?d'"
        by (simp add: award_achievement_if_new_def achievements_filter_key)
      have "holds_badge s n ?d' \<longleftrightarrow> holds_badge s n d \<or> (s = sid \<and> n = name)" for s n
      proof
        assume "holds_badge s n ?d'"
        then obtain ty' where ty': "ty' \<in> set (achievement_types d)" "at_name ty' = n"
          and row: "(\<exists>a \<in> set (student_achievements d).
                       sa_student_id a = s \<and> sa_achievement_type_id a = at_id ty') \<or>
                    (s = sid \<and> at_id ty' = at_id ty)"
          by (auto simp: holds_badge_iff)
        from row show "holds_badge s n d \<or> (s = sid \<and> n = name)"
        proof
          assume "\<exists>a \<in> set (student_achievements d).
                       sa_student_id a = s \<and> sa_achievement_type_id a = at_id ty'"
          with ty' show ?thesis by (auto simp: holds_badge_iff)
        next
          assume "s = sid \<and> at_id ty' = at_id ty"
          moreover from this ids ty' ty have "ty' = ty" by (auto dest: distinct_map_eq)
          ultimately show ?thesis using ty ty' by simp
        qed
      next
        assume "holds_badge s n d \<or> (s = sid \<and> n = name)"
        then show "holds_badge s n ?d'"
        proof
          assume "holds_badge s n d"
          then show ?thesis by (auto simp: holds_badge_iff)
        next
          assume "s = sid \<and> n = name"
          with ty show ?thesis by (auto simp: holds_badge_iff)
        qed
      qed
      with aw ex show ?thesis by simp
    qed
  qed
qed

lemma same_but_achievements_counts:
  assumes "same_but_achievements d d'"
  shows "total_completed s d' = total_completed s d"
    "today_completed s now d' = today_completed s now d"
    "completed_paths s d' = completed_paths s d"
    "badge_type_exists n d' = badge_type_exists n d"
    "achievement_types d' = achievement_types d"
  using assms
  by (simp_all add: same_but_achievements_def total_completed_def today_completed_def
        completed_paths_def badge_type_exists_def)

lemma award_step_holds:
  assumes names: "distinct (map at_name (achievement_types d))"
    and ids: "distinct (map at_id (achievement_types d))"
    and once: "at_most_once d"
  shows "\<exists>d'. (if c then award_achievement_if_new sid name now i d else Inr d) = Inr d' \<and>
           same_but_achievements d d' \<and> at_most_once d' \<and>
           (\<forall>s n. holds_badge s n d' \<longleftrightarrow>
                    holds_badge s n d \<or>
                    (c \<and> s = sid \<and> n = name \<and> badge_type_exists name d))"
proof (cases c)
  case True
  from award_holds [OF names ids once, where sid = sid and name = name and now = now and i = i] obtain d' where
    aw: "award_achievement_if_new sid name now i d = Inr d'"
    and h: "\<forall>s n. holds_badge s n d' \<longleftrightarrow>
                    holds_badge s n d \<or> (s = sid \<and> n = name \<and> badge_type_exists name d)"
    by blast
  from aw have "same_but_achievements d d'" by (rule award_frame)
  moreover from aw once have "at_most_once d'" by (rule award_at_most_once)
  ultimately show ?thesis using True aw h by simp
next
  case False
  with once show ?thesis by (simp add: same_but_achievements_def)
qed

lemma check_achievements_holds:
  assumes names: "distinct (map at_name (achievement_types d))"
    and ids: "distinct (map at_id (achievement_types d))"
    and once: "at_most_once d"
  shows "\<exists>d'. check_achievements sid now new_ids d = Inr d' \<and>
           same_but_achievements d d' \<and> at_most_once d' \<and>
           (\<forall>s n. holds_badge s n d' \<longleftrightarrow>
              holds_badge s n d \<or>
              (s = sid \<and>
               (n = ''First Steps'' \<and> total_completed sid d \<ge> 1 \<or>
                n = ''Quick Learner'' \<and> today_completed sid now d \<ge> 3 \<or>
                n = ''Path Completer'' \<and> completed_paths sid d \<ge> 1) \<and>
               badge_type_exists n d))"
proof -
  obtain i1 i2 i3 where new_ids: "new_ids = (i1, i2, i3)" by (cases new_ids) auto
  from award_step_holds [OF names ids once, where c = "total_completed sid d \<ge> 1"
      and sid = sid and name = "''First Steps''" and now = now and i = i1]
  obtain d1 where s1: "(if total_completed sid d \<ge> 1
          then award_achievement_if_new sid ''First Steps'' now i1 d else Inr d) = Inr d1"
    and f1: "same_but_achievements d d1" and o1: "at_most_once d1"
    and h1: "\<forall>s n. holds_badge s n d1 \<longleftrightarrow> holds_badge s n d \<or>
              (total_completed sid d \<ge> 1 \<and> s = sid \<and> n = ''First Steps'' \<and>
               badge_type_exists ''First Steps'' d)"
    by blast
  note c1 = same_but_achievements_counts [OF f1]
  from names ids c1(5) have n1: "distinct (map at_name (achievement_types d1))"
    and t1: "distinct (map at_id (achievement_types d1))" by simp_all
  from award_step_holds [OF n1 t1 o1, where c = "today_completed sid now d1 \<ge> 3"
      and sid = sid and name = "''Quick Learner''" and now = now and i = i2]
  obtain d2 where s2: "(if today_completed sid now d1 \<ge> 3
          then award_achievement_if_new sid ''Quick Learner'' now i2 d1 else Inr d1) = Inr d2"
    and f2: "same_but_achievements d1 d2" and o2: "at_most_once d2"
    and h2: "\<forall>s n. holds_badge s n d2 \<longleftrightarrow> holds_badge s n d1 \<or>
              (today_completed sid now d1 \<ge> 3 \<and> s = sid \<and> n = ''Quick Learner'' \<and>
               badge_type_exists ''Quick Learner'' d1)"
    by blast
  note c2 = same_but_achievements_counts [OF f2]
  from n1 t1 c2(5) have n2: "distinct (map at_name (achievement_types d2))"
    and t2: "distinct (map at_id (achievement_types d2))" by simp_all
  from award_step_holds [OF n2 t2 o2, where c = "completed_paths sid d2 \<ge> 1"
      and sid = sid and name = "''Path Completer''" and now = now and i = i3]
  obtain d3 where s3: "(if completed_paths sid d2 \<ge> 1
          then award_achievement_if_new sid ''Path Completer'' now i3 d2 else Inr d2) = Inr d3"
    and f3: "same_but_achievements d2 d3" and o3: "at_most_once d3"
    and h3: "\<forall>s n. holds_badge s n d3 \<longleftrightarrow> holds_badge s n d2 \<or>
              (completed_paths sid d2 \<ge> 1 \<and> s = sid \<and> n = ''Path Completer'' \<and>
               badge_type_exists ''Path Completer'' d2)"
    by blast
  have run: "check_achievements sid now new_ids d = Inr d3"
    using s1 s2 s3 by (simp add: check_achievements_def new_ids)
  have frame: "same_but_achievements d d3"
    using f1 f2 f3 by (simp add: same_but_achievements_def)
  have "holds_badge s n d3 \<longleftrightarrow>
              holds_badge s n d \<or>
              (s = sid \<and>
               (n = ''First Steps'' \<and> total_completed sid d \<ge> 1 \<or>
                n = ''Quick Learner'' \<and> today_completed sid now d \<ge> 3 \<or>
                n = ''Path Completer'' \<and> completed_paths sid d \<ge> 1) \<and>
               badge_type_exists n d)" for s n
    by (simp add: h3 h2 h1 c1(1-4) c2(1-4)) blast
  with run frame o3 show ?thesis by blast
qed

lemma filter_lookup_row:
  assumes "distinct (map f xs)" and "x \<in> set xs"
  shows "filter (\<lambda>y. f y = f x) xs = [x]"
proof -
  from assms(2) have mem: "x \<in> set (filter (\<lambda>y. f y = f x) xs)" by simp
  from filter_key_cases [OF assms(1), of "f x"] show ?thesis
  proof
    assume "filter (\<lambda>y. f y = f x) xs = []"
    with mem show ?thesis by simp
  next
    assume "\<exists>z. filter (\<lambda>y. f y = f x) xs = [z]"
    then obtain z where z: "filter (\<lambda>y. f y = f x) xs = [z]" ..
    with mem have "z = x" by simp
    with z show ?thesis by simp
  qed
qed

lemma award_when_held:
  assumes names: "distinct (map at_name (achievement_types d))"
    and once: "at_most_once d"
    and held: "holds_badge sid name d"
  shows "award_achievement_if_new sid name now i d = Inr d"
proof -
  from held obtain ty a where ty: "ty \<in> set (achievement_types d)" "at_name ty = name"
    and a: "a \<in> set (student_achievements d)" "achievement_key a = (sid, at_id ty)"
    by (auto simp: holds_badge_iff achievement_key_def)
  from filter_lookup_row [OF names ty(1)] ty(2)
  have one: "filter (\<lambda>t. at_name t = name) (achievement_types d) = [ty]" by simp
  from once have "distinct (map achievement_key (student_achievements d))"
    by (simp add: at_most_once_def)
  from filter_key_cases [OF this, of "(sid, at_id ty)"] a obtain b where
    "filter (\<lambda>a. achievement_key a = (sid, at_id ty)) (student_achievements d) = [b]"
    by (auto simp: filter_empty_conv)
  with one show ?thesis
    by (simp add: award_achievement_if_new_def achievements_filter_key)
qed

text \<open>
  Claim C7, as the code has it.  Start from a database in which no student has two
  rows for one achievement type (for instance one without achievements).
  \<^item> No sequence of calls of \<^verbatim>\<open>update_module_progress\<close>, completions included, changes
    the table \<^verbatim>\<open>student_achievements\<close>: \<^verbatim>\<open>_check_achievements\<close> stands behind the call
    of \<^verbatim>\<open>_update_path_progress\<close>, which raises, and nothing else calls it.  So every
    student keeps at most one row for every achievement type, and no completion grants
    a badge.
  \<^item> \<^verbatim>\<open>_award_achievement_if_new\<close> returns the database unchanged when no achievement
    type has the name, and (names being unique) when the student holds the badge.
  \<^item> With unique names and ids of the achievement types, \<^verbatim>\<open>_check_achievements\<close>, were
    it called, returns, changes no other table, and afterwards a student holds a badge
    exactly when the student held it before or it was granted now: granted are, to the
    student checked and provided the type exists, ``First Steps'' when at least 1 module
    is completed, ``Quick Learner'' when at least 3 modules were completed since the
    start of the current UTC day, ``Path Completer'' when at least 1 learning path of the
    student has a completion time.
\<close>

theorem badges_awarded_once:
  assumes once: "at_most_once d"
  shows
    "student_achievements (apply_updates conv calls d) = student_achievements d
     \<and> (\<forall>student achievement_type.
        length (filter (\<lambda>a. sa_student_id a = student \<and>
                            sa_achievement_type_id a = achievement_type)
                  (student_achievements (apply_updates conv calls d))) \<le> 1)
     \<and> (\<not> badge_type_exists name d \<longrightarrow>
          award_achievement_if_new sid name now i d = Inr d)
     \<and> (distinct (map at_name (achievement_types d)) \<and> holds_badge sid name d \<longrightarrow>
          award_achievement_if_new sid name now i d = Inr d)
     \<and> (distinct (map at_name (achievement_types d)) \<and>
          distinct (map at_id (achievement_types d)) \<longrightarrow>
          (\<exists>d'. check_achievements sid now new_ids d = Inr d' \<and>
             same_but_achievements d d' \<and>
             (\<forall>s n. holds_badge s n d' \<longleftrightarrow>
                holds_badge s n d \<or>
                (s = sid \<and>
                 (n = ''First Steps'' \<and> total_completed sid d \<ge> 1 \<or>
                  n = ''Quick Learner'' \<and> today_completed sid now d \<ge> 3 \<or>
                  n = ''Path Completer'' \<and> completed_paths sid d \<ge> 1) \<and>
                 badge_type_exists n d))))"
proof (intro conjI impI allI)
  show same: "student_achievements (apply_updates conv calls d) = student_achievements d"
    by (rule apply_updates_frame [THEN conjunct1])
  fix student achievement_type
  from once same have "at_most_once (apply_updates conv calls d)"
    by (simp add: at_most_once_def)
  then show "length (filter (\<lambda>a. sa_student_id a = student \<and>
                            sa_achievement_type_id a = achievement_type)
                  (student_achievements (apply_updates conv calls d))) \<le> 1"
    by (rule at_most_once_count)
next
  assume "\<not> badge_type_exists name d"
  then have "filter (\<lambda>t. at_name t = name) (achievement_types d) = []"
    by (auto simp: badge_type_exists_iff filter_empty_conv)
  then show "award_achievement_if_new sid name now i d = Inr d"
    by (simp add: award_achievement_if_new_def)
next
  assume "distinct (map at_name (achievement_types d)) \<and> holds_badge sid name d"
  with once show "award_achievement_if_new sid name now i d = Inr d"
    by (simp add: award_when_held)
next
  assume "distinct (map at_name (achievement_types d)) \<and>
          distinct (map at_id (achievement_types d))"
  then have "distinct (map at_name (achievement_types d))"
    "distinct (map at_id (achievement_types d))" by simp_all
  from check_achievements_holds [OF this once, where sid = sid and now = now
      and new_ids = new_ids]
  show "\<exists>d'. check_achievements sid now new_ids d = Inr d' \<and>
             same_but_achievements d d' \<and>
             (\<forall>s n. holds_badge s n d' \<longleftrightarrow>
                holds_badge s n d \<or>
                (s = sid \<and>
                 (n = ''First Steps'' \<and> total_completed sid d \<ge> 1 \<or>
                  n = ''Quick Learner'' \<and> today_completed sid now d \<ge> 3 \<or>
                  n = ''Path Completer'' \<and> completed_paths sid d \<ge> 1) \<and>
                 badge_type_exists n d))"
    by blast
qed

lemmas badge_defs = badge_db_def learn_defs

theorem badges_awarded_once_witness:
  "student_achievements
       (apply_updates py_int [(2, 11, 100, 5, None, 1000, (50, 51, 52)),
                              (2, 11, 100, 5, None, 2000, (53, 54, 55))] learn_db) = []
   \<and> length (filter (\<lambda>a. sa_student_id a = 2 \<and> sa_achievement_type_id a = 40)
             (student_achievements
                (apply_updates py_int [(2, 11, 100, 5, None, 1000, (50, 51, 52)),
                                       (2, 11, 100, 5, None, 2000, (53, 54, 55))] learn_db))) \<le> 1
   \<and> award_achievement_if_new 2 ''Night Owl'' 1000 50 done_db = Inr done_db
   \<and> award_achievement_if_new 2 ''First Steps'' 2000 60 badge_db = Inr badge_db
   \<and> (\<exists>d'. check_achievements 2 1000 (50, 51, 52) done_db = Inr d' \<and>
          holds_badge 2 ''First Steps'' d' \<and> \<not> holds_badge 2 ''Quick Learner'' d' \<and>
          \<not> holds_badge 2 ''Path Completer'' d')"
proof -
  have o1: "at_most_once learn_db" and o2: "at_most_once done_db" and o3: "at_most_once badge_db"
    by (simp_all add: at_most_once_def badge_defs achievement_key_def)
  have n2: "distinct (map at_name (achievement_types done_db))"
    and i2: "distinct (map at_id (achievement_types done_db))"
    and n3: "distinct (map at_name (achievement_types badge_db))"
    by (simp_all add: badge_defs)
  have e2: "\<not> badge_type_exists ''Night Owl'' done_db"
    by (simp add: badge_type_exists_def badge_defs)
  have h3: "holds_badge 2 ''First Steps'' badge_db"
    by (simp add: holds_badge_def badge_defs)
  have c2: "total_completed 2 done_db = 1" "today_completed 2 1000 done_db = 1"
    "completed_paths 2 done_db = 0"
    by (simp_all add: total_completed_def today_completed_def today_start_def
          completed_paths_def badge_defs)
  have b2: "\<not> holds_badge 2 n done_db" "badge_type_exists ''First Steps'' done_db" for n
    by (simp_all add: holds_badge_def badge_type_exists_def badge_defs)
  note t1 = badges_awarded_once [OF o1, where conv = py_int and calls =
      "[(2, 11, 100, 5, None, 1000, (50, 51, 52)), (2, 11, 100, 5, None, 2000, (53, 54, 55))]"]
  note t2 = badges_awarded_once [OF o2, where name = "''Night Owl''" and sid = 2
      and now = 1000 and i = 50 and new_ids = "(50, 51, 52)"]
  note t3 = badges_awarded_once [OF o3, where name = "''First Steps''" and sid = 2
      and now = 2000 and i = 60]
  have "student_achievements learn_db = []" by (simp add: badge_defs)
  with t1 [THEN conjunct1]
  have z: "student_achievements
       (apply_updates py_int [(2, 11, 100, 5, None, 1000, (50, 51, 52)),
                              (2, 11, 100, 5, None, 2000, (53, 54, 55))] learn_db) = []"
    by simp
  have a: "length (filter (\<lambda>a. sa_student_id a = 2 \<and> sa_achievement_type_id a = 40)
             (student_achievements
                (apply_updates py_int [(2, 11, 100, 5, None, 1000, (50, 51, 52)),
                                       (2, 11, 100, 5, None, 2000, (53, 54, 55))] learn_db))) \<le> 1"
    by (rule t1 [THEN conjunct2, THEN conjunct1, rule_format])
  have b: "award_achievement_if_new 2 ''Night Owl'' 1000 50 done_db = Inr done_db"
    using t2 [THEN conjunct2, THEN conjunct2, THEN conjunct1] e2 by simp
  have c: "award_achievement_if_new 2 ''First Steps'' 2000 60 badge_db = Inr badge_db"
    using t3 [THEN conjunct2, THEN conjunct2, THEN conjunct2, THEN conjunct1] n3 h3 by simp
  have "distinct (map at_name (achievement_types done_db)) \<and>
        distinct (map at_id (achievement_types done_db))"
    using n2 i2 by simp
  from t2 [THEN conjunct2, THEN conjunct2, THEN conjunct2, THEN conjunct2, THEN mp, OF this]
  obtain d' where chk: "check_achievements 2 1000 (50, 51, 52) done_db = Inr d'"
    and h: "\<forall>s n. holds_badge s n d' \<longleftrightarrow>
                holds_badge s n done_db \<or>
                (s = 2 \<and>
                 (n = ''First Steps'' \<and> total_completed 2 done_db \<ge> 1 \<or>
                  n = ''Quick Learner'' \<and> today_completed 2 1000 done_db \<ge> 3 \<or>
                  n = ''Path Completer'' \<and> completed_paths 2 done_db \<ge> 1) \<and>
                 badge_type_exists n done_db)"
    by (elim exE conjE) (rule that; assumption)
  from h c2 b2 have "holds_badge 2 ''First Steps'' d'" "\<not> holds_badge 2 ''Quick Learner'' d'"
    "\<not> holds_badge 2 ''Path Completer'' d'"
    by simp_all
  with chk have "\<exists>d'. check_achievements 2 1000 (50, 51, 52) done_db = Inr d' \<and>
          holds_badge 2 ''First Steps'' d' \<and> \<not> holds_badge 2 ''Quick Learner'' d' \<and>
          \<not> holds_badge 2 ''Path Completer'' d'"
    by (intro exI [of _ d']) simp
  with z a b c show ?thesis by (intro conjI)
qed


subsection \<open>Module locking\<close>

lemma scalar_one_or_none_short:
  "length xs \<le> 1 \<Longrightarrow>
   scalar_one_or_none xs = Inr (case xs of [] \<Rightarrow> None | x # _ \<Rightarrow> Some x)"
  by (cases xs rule: scalar_one_or_none.cases) simp_all

lemma filter_singleton_set:
  assumes "filter P xs = [x]"
  shows "(\<exists>y \<in> set xs. P y \<and> Q y) \<longleftrightarrow> Q x"
proof
  assume "\<exists>y \<in> set xs. P y \<and> Q y"
  then obtain y where y: "y \<in> set xs" "P y" "Q y" by auto
  then have "y \<in> set (filter P xs)" by simp
  then have "y = x" unfolding assms by simp
  with y show "Q x" by simp
next
  assume "Q x"
  moreover have "x \<in> set xs \<and> P x" by (rule filter_singleton_mem [OF assms])
  ultimately show "\<exists>y \<in> set xs. P y \<and> Q y" by auto
qed

lemma scalar_one_or_none_error:
  "scalar_one_or_none xs = Inl e \<Longrightarrow> e = MultipleResultsFound"
  by (cases xs rule: scalar_one_or_none.cases) simp_all

lemma is_module_locked_error:
  "is_module_locked sid m d = Inl e \<Longrightarrow> e = MultipleResultsFound"
  by (auto simp: is_module_locked_def split: if_splits sum.splits option.splits
           dest: scalar_one_or_none_error)

lemma is_module_locked_value:
  assumes high: "lm_sort_order m > 1"
    and prev: "length (filter (\<lambda>q. lm_path_id q = lm_path_id m \<and>
                       lm_sort_order q = lm_sort_order m - 1 \<and> lm_is_active q)
             (learning_modules d)) \<le> 1"
    and recs: "\<forall>q \<in> set (learning_modules d).
           length (filter (\<lambda>p. smp_student_id p = sid \<and> smp_module_id p = lm_id q \<and>
                                smp_status p = ''completed'')
                     (student_module_progress d)) \<le> 1"
  shows "is_module_locked sid m d =
     Inr (\<exists>q \<in> set (learning_modules d).
            (lm_path_id q = lm_path_id m \<and> lm_sort_order q = lm_sort_order m - 1 \<and>
             lm_is_active q) \<and>
            \<not> (\<exists>p \<in> set (student_module_progress d).
                  smp_student_id p = sid \<and> smp_module_id p = lm_id q \<and>
                  smp_status p = ''completed''))"
proof -
  let ?P = "\<lambda>q. lm_path_id q = lm_path_id m \<and> lm_sort_order q = lm_sort_order m - 1 \<and>
                 lm_is_active q"
  let ?C = "\<lambda>q p. smp_student_id p = sid \<and> smp_module_id p = lm_id q \<and>
                   smp_status p = ''completed''"
  show ?thesis
  proof (cases "filter ?P (learning_modules d)")
    case Nil
    then have "\<not> (\<exists>q \<in> set (learning_modules d). ?P q \<and>
                 \<not> (\<exists>p \<in> set (student_module_progress d). ?C q p))"
      by (auto simp: filter_empty_conv)
    moreover from Nil high have "is_module_locked sid m d = Inr False"
      by (simp add: is_module_locked_def)
    ultimately show ?thesis by (simp only:)
  next
    case (Cons q rest)
    with prev have one: "filter ?P (learning_modules d) = [q]" by (cases rest) simp_all
    then have "q \<in> set (learning_modules d)" using filter_singleton_mem by fastforce
    with recs have short: "length (filter (?C q) (student_module_progress d)) \<le> 1" by simp
    have "is_module_locked sid m d = Inr (filter (?C q) (student_module_progress d) = [])"
      using high one scalar_one_or_none_short [OF short]
      by (simp add: is_module_locked_def split: list.splits)
    also have "filter (?C q) (student_module_progress d) = [] \<longleftrightarrow>
               \<not> (\<exists>p \<in> set (student_module_progress d). ?C q p)"
      by (simp add: filter_empty_conv)
    also have "\<dots> \<longleftrightarrow> (\<exists>q \<in> set (learning_modules d). ?P q \<and>
                 \<not> (\<exists>p \<in> set (student_module_progress d). ?C q p))"
      by (rule filter_singleton_set [OF one, symmetric])
    finally show ?thesis .
  qed
qed

text \<open>What \<^verbatim>\<open>start_module\<close> does once the module has been found.\<close>

lemma start_module_found:
  assumes found: "filter (\<lambda>q. lm_id q = mid) (learning_modules d) = [m]"
  shows
    "(filter (\<lambda>sp. slp_student_id sp = sid \<and> slp_path_id sp = lm_path_id m \<and>
                    slp_is_active sp) (student_learning_paths d) = [] \<longrightarrow>
        start_module sid mid now new_id d =
          Inl (ValueError ''Student does not have access to this module's learning path''))
     \<and> (is_module_locked sid m d = Inr True \<longrightarrow>
          (\<exists>e. start_module sid mid now new_id d = Inl e))
     \<and> (start_module sid mid now new_id d =
            Inl (ValueError ''Module is locked. Complete previous modules first.'') \<longleftrightarrow>
          (\<exists>sp. filter (\<lambda>sp. slp_student_id sp = sid \<and> slp_path_id sp = lm_path_id m \<and>
                           slp_is_active sp)
                  (student_learning_paths d) = [sp]) \<and>
          is_module_locked sid m d = Inr True)
     \<and> ((\<exists>e. start_module sid mid now new_id d = Inl e) \<longleftrightarrow>
          \<not> ((\<exists>sp. filter (\<lambda>sp. slp_student_id sp = sid \<and> slp_path_id sp = lm_path_id m \<and>
                              slp_is_active sp)
                     (student_learning_paths d) = [sp]) \<and>
             is_module_locked sid m d = Inr False \<and>
             length (filter (\<lambda>p. smp_student_id p = sid \<and> smp_module_id p = mid)
                       (student_module_progress d)) \<le> 1))"
proof -
  let ?A = "filter (\<lambda>sp. slp_student_id sp = sid \<and> slp_path_id sp = lm_path_id m \<and>
                           slp_is_active sp) (student_learning_paths d)"
  let ?R = "filter (\<lambda>p. smp_student_id p = sid \<and> smp_module_id p = mid)
                       (student_module_progress d)"
  let ?locked_error = "ValueError ''Module is locked. Complete previous modules first.''"
  have sc: "scalar_one_or_none (filter (\<lambda>q. lm_id q = mid) (learning_modules d)) =
              Inr (Some m)"
    using found by simp
  have none: "start_module sid mid now new_id d =
          Inl (ValueError ''Student does not have access to this module's learning path'')"
    if "?A = []"
    using that by (simp add: start_module_def sc)
  have raises: "\<exists>e. start_module sid mid now new_id d = Inl e"
    if "is_module_locked sid m d = Inr True"
    using that
    by (cases ?A rule: scalar_one_or_none.cases) (simp_all add: start_module_def sc)
  have exact: "start_module sid mid now new_id d = Inl ?locked_error \<longleftrightarrow>
          (\<exists>sp. ?A = [sp]) \<and> is_module_locked sid m d = Inr True"
  proof (cases ?A rule: scalar_one_or_none.cases)
    case 1
    then show ?thesis by (simp add: start_module_def sc)
  next
    case (2 sp)
    then show ?thesis
      by (auto simp: start_module_def sc Let_def split: sum.splits bool.splits option.splits
               dest: scalar_one_or_none_error is_module_locked_error)
  next
    case (3 x y zs)
    then show ?thesis by (simp add: start_module_def sc)
  qed
  have full: "(\<exists>e. start_module sid mid now new_id d = Inl e) \<longleftrightarrow>
          \<not> ((\<exists>sp. ?A = [sp]) \<and> is_module_locked sid m d = Inr False \<and> length ?R \<le> 1)"
  proof (cases ?A rule: scalar_one_or_none.cases)
    case 1
    then show ?thesis by (simp add: start_module_def sc)
  next
    case (3 x y zs)
    then show ?thesis by (simp add: start_module_def sc)
  next
    case (2 sp)
    note enrolled = 2
    show ?thesis
    proof (cases "is_module_locked sid m d")
      case (Inl e)
      with enrolled show ?thesis by (simp add: start_module_def sc)
    next
      case (Inr b)
      show ?thesis
      proof (cases b)
        case True
        with Inr enrolled show ?thesis by (simp add: start_module_def sc)
      next
        case False
        with Inr enrolled show ?thesis
          by (cases ?R rule: scalar_one_or_none.cases)
             (simp_all add: start_module_def sc Let_def)
      qed
    qed
  qed
  from none raises exact full show ?thesis by (intro conjI impI)
qed

text \<open>
  Claim C2, as the code has it.
  \<^item> A module with \<^verbatim>\<open>sort_order\<close> at most 1 is never locked.
  \<^item> For a module with \<^verbatim>\<open>sort_order\<close> above 1, when the path has at most one active
    module in the preceding position and the student has at most one completed progress
    record per module, \<^verbatim>\<open>_is_module_locked\<close> answers true exactly if an active module
    with \<^verbatim>\<open>sort_order - 1\<close> exists in the same path and the student has no completed
    progress record for it.  (Without the two provisos the query raises
    \<^verbatim>\<open>MultipleResultsFound\<close>.)
  \<^item> \<^verbatim>\<open>start_module\<close> raises \<^verbatim>\<open>ValueError\<close> ``Module not found'' when no module has
    the id, and \<^verbatim>\<open>MultipleResultsFound\<close> when several have it.
  \<^item> When \<open>m\<close> is the one module with the id: \<^verbatim>\<open>start_module\<close> raises \<^verbatim>\<open>ValueError\<close>
    ``Student does not have access to this module's learning path'' when the student has
    no active enrolment in the path of \<open>m\<close>; it raises whenever \<open>m\<close> is locked; it raises
    ``Module is locked. Complete previous modules first.'' exactly when the student has
    exactly one active enrolment in the path and \<open>m\<close> is locked; and altogether it raises
    exactly unless the student has exactly one active enrolment in the path, the lock
    check answers false, and the student has at most one progress record for the module
    (then it returns a progress record).
  A raise returns no database: nothing has been created or updated.
\<close>

theorem module_locking:
  "(lm_sort_order m \<le> 1 \<longrightarrow> is_module_locked sid m d = Inr False)
   \<and> (lm_sort_order m > 1 \<and>
        length (filter (\<lambda>q. lm_path_id q = lm_path_id m \<and>
                     lm_sort_order q = lm_sort_order m - 1 \<and> lm_is_active q)
           (learning_modules d)) \<le> 1 \<and>
        (\<forall>q \<in> set (learning_modules d).
           length (filter (\<lambda>p. smp_student_id p = sid \<and> smp_module_id p = lm_id q \<and>
                                smp_status p = ''completed'')
                     (student_module_progress d)) \<le> 1) \<longrightarrow>
        is_module_locked sid m d =
          Inr (\<exists>q \<in> set (learning_modules d).
                 (lm_path_id q = lm_path_id m \<and> lm_sort_order q = lm_sort_order m - 1 \<and>
                  lm_is_active q) \<and>
                 \<not> (\<exists>p \<in> set (student_module_progress d).
                       smp_student_id p = sid \<and> smp_module_id p = lm_id q \<and>
                       smp_status p = ''completed'')))
   \<and> (filter (\<lambda>q. lm_id q = mid) (learning_modules d) = [] \<longrightarrow>
        start_module sid mid now new_id d = Inl (ValueError ''Module not found''))
   \<and> (length (filter (\<lambda>q. lm_id q = mid) (learning_modules d)) > 1 \<longrightarrow>
        start_module sid mid now new_id d = Inl MultipleResultsFound)
   \<and> (filter (\<lambda>q. lm_id q = mid) (learning_modules d) = [m] \<longrightarrow>
        (filter (\<lambda>sp. slp_student_id sp = sid \<and> slp_path_id sp = lm_path_id m \<and>
                      slp_is_active sp) (student_learning_paths d) = [] \<longrightarrow>
           start_module sid mid now new_id d =
             Inl (ValueError ''Student does not have access to this module's learning path''))
        \<and> (is_module_locked sid m d = Inr True \<longrightarrow>
             (\<exists>e. start_module sid mid now new_id d = Inl e))
        \<and> (start_module sid mid now new_id d =
               Inl (ValueError ''Module is locked. Complete previous modules first.'') \<longleftrightarrow>
             (\<exists>sp. filter (\<lambda>sp. slp_student_id sp = sid \<and> slp_path_id sp = lm_path_id m \<and>
                              slp_is_active sp)
                     (student_learning_paths d) = [sp]) \<and>
             is_module_locked sid m d = Inr True)
        \<and> ((\<exists>e. start_module sid mid now new_id d = Inl e) \<longleftrightarrow>
             \<not> ((\<exists>sp. filter (\<lambda>sp. slp_student_id sp = sid \<and> slp_path_id sp = lm_path_id m \<and>
                                 slp_is_active sp)
                        (student_learning_paths d) = [sp]) \<and>
                is_module_locked sid m d = Inr False \<and>
                length (filter (\<lambda>p. smp_student_id p = sid \<and> smp_module_id p = mid)
                          (student_module_progress d)) \<le> 1)))"
proof (intro conjI)
  show "lm_sort_order m \<le> 1 \<longrightarrow> is_module_locked sid m d = Inr False"
    by (simp add: is_module_locked_def)
next
  show "lm_sort_order m > 1 \<and>
        length (filter (\<lambda>q. lm_path_id q = lm_path_id m \<and>
                     lm_sort_order q = lm_sort_order m - 1 \<and> lm_is_active q)
           (learning_modules d)) \<le> 1 \<and>
        (\<forall>q \<in> set (learning_modules d).
           length (filter (\<lambda>p. smp_student_id p = sid \<and> smp_module_id p = lm_id q \<and>
                                smp_status p = ''completed'')
                     (student_module_progress d)) \<le> 1) \<longrightarrow>
        is_module_locked sid m d =
          Inr (\<exists>q \<in> set (learning_modules d).
                 (lm_path_id q = lm_path_id m \<and> lm_sort_order q = lm_sort_order m - 1 \<and>
                  lm_is_active q) \<and>
                 \<not> (\<exists>p \<in> set (student_module_progress d).
                       smp_student_id p = sid \<and> smp_module_id p = lm_id q \<and>
                       smp_status p = ''completed''))"
  proof
    assume h: "lm_sort_order m > 1 \<and>
        length (filter (\<lambda>q. lm_path_id q = lm_path_id m \<and>
                     lm_sort_order q = lm_sort_order m - 1 \<and> lm_is_active q)
           (learning_modules d)) \<le> 1 \<and>
        (\<forall>q \<in> set (learning_modules d).
           length (filter (\<lambda>p. smp_student_id p = sid \<and> smp_module_id p = lm_id q \<and>
                                smp_status p = ''completed'')
                     (student_module_progress d)) \<le> 1)"
    show "is_module_locked sid m d =
          Inr (\<exists>q \<in> set (learning_modules d).
                 (lm_path_id q = lm_path_id m \<and> lm_sort_order q = lm_sort_order m - 1 \<and>
                  lm_is_active q) \<and>
                 \<not> (\<exists>p \<in> set (student_module_progress d).
                       smp_student_id p = sid \<and> smp_module_id p = lm_id q \<and>
                       smp_status p = ''completed''))"
      by (rule is_module_locked_value
            [OF h [THEN conjunct1] h [THEN conjunct2, THEN conjunct1]
                h [THEN conjunct2, THEN conjunct2]])
  qed
next
  show "filter (\<lambda>q. lm_id q = mid) (learning_modules d) = [] \<longrightarrow>
        start_module sid mid now new_id d = Inl (ValueError ''Module not found'')"
    by (simp add: start_module_def)
next
  show "length (filter (\<lambda>q. lm_id q = mid) (learning_modules d)) > 1 \<longrightarrow>
        start_module sid mid now new_id d = Inl MultipleResultsFound"
    by (cases "filter (\<lambda>q. lm_id q = mid) (learning_modules d)"
          rule: scalar_one_or_none.cases)
       (simp_all add: start_module_def)
next
  show "filter (\<lambda>q. lm_id q = mid) (learning_modules d) = [m] \<longrightarrow>
        (filter (\<lambda>sp. slp_student_id sp = sid \<and> slp_path_id sp = lm_path_id m \<and>
                      slp_is_active sp) (student_learning_paths d) = [] \<longrightarrow>
           start_module sid mid now new_id d =
             Inl (ValueError ''Student does not have access to this module's learning path''))
        \<and> (is_module_locked sid m d = Inr True \<longrightarrow>
             (\<exists>e. start_module sid mid now new_id d = Inl e))
        \<and> (start_module sid mid now new_id d =
               Inl (ValueError ''Module is locked. Complete previous modules first.'') \<longleftrightarrow>
             (\<exists>sp. filter (\<lambda>sp. slp_student_id sp = sid \<and> slp_path_id sp = lm_path_id m \<and>
                              slp_is_active sp)
                     (student_learning_paths d) = [sp]) \<and>
             is_module_locked sid m d = Inr True)
        \<and> ((\<exists>e. start_module sid mid now new_id d = Inl e) \<longleftrightarrow>
             \<not> ((\<exists>sp. filter (\<lambda>sp. slp_student_id sp = sid \<and> slp_path_id sp = lm_path_id m \<and>
                                 slp_is_active sp)
                        (student_learning_paths d) = [sp]) \<and>
                is_module_locked sid m d = Inr False \<and>
                length (filter (\<lambda>p. smp_student_id p = sid \<and> smp_module_id p = mid)
                          (student_module_progress d)) \<le> 1))"
    by (rule impI) (rule start_module_found)
qed

theorem module_locking_witness:
  "is_module_locked 2 module_one learn_db = Inr False
   \<and> is_module_locked 2 module_two learn_db = Inr True
   \<and> start_module 2 12 1000 31 learn_db =
       Inl (ValueError ''Module is locked. Complete previous modules first.'')
   \<and> start_module 2 99 1000 31 learn_db = Inl (ValueError ''Module not found'')
   \<and> start_module 3 11 1000 31 learn_db =
       Inl (ValueError ''Student does not have access to this module's learning path'')
   \<and> start_module 2 11 1000 31 (learn_db\<lparr>learning_modules := [module_one, module_one]\<rparr>) =
       Inl MultipleResultsFound
   \<and> is_module_locked 2 module_two done_db = Inr False
   \<and> (\<forall>e. start_module 2 12 1000 31 done_db \<noteq> Inl e)"
proof -
  have f1: "filter (\<lambda>q. lm_id q = 11) (learning_modules learn_db) = [module_one]"
    and f2: "filter (\<lambda>q. lm_id q = 12) (learning_modules learn_db) = [module_two]"
    and f3: "filter (\<lambda>q. lm_id q = 12) (learning_modules done_db) = [module_two]"
    and f4: "filter (\<lambda>q. lm_id q = 99) (learning_modules learn_db) = []"
    and f5: "length (filter (\<lambda>q. lm_id q = 11)
                (learning_modules (learn_db\<lparr>learning_modules := [module_one, module_one]\<rparr>))) > 1"
    by (simp_all add: learn_defs)
  note t1 = module_locking [where m = module_one and sid = 2 and d = learn_db and mid = 11
      and now = 1000 and new_id = 31]
  note t2 = module_locking [where m = module_two and sid = 2 and d = learn_db and mid = 12
      and now = 1000 and new_id = 31]
  note t3 = module_locking [where m = module_two and sid = 2 and d = done_db and mid = 12
      and now = 1000 and new_id = 31]
  note t4 = module_locking [where m = module_one and sid = 2 and d = learn_db and mid = 99
      and now = 1000 and new_id = 31]
  note t5 = module_locking [where m = module_one and sid = 3 and d = learn_db and mid = 11
      and now = 1000 and new_id = 31]
  note t6 = module_locking [where m = module_one and sid = 2
      and d = "learn_db\<lparr>learning_modules := [module_one, module_one]\<rparr>" and mid = 11
      and now = 1000 and new_id = 31]
  have first: "is_module_locked 2 module_one learn_db = Inr False"
    by (rule t1 [THEN conjunct1, THEN mp]) (simp add: module_one_def)
  have "is_module_locked 2 module_two learn_db =
          Inr (\<exists>q \<in> set (learning_modules learn_db).
                 (lm_path_id q = lm_path_id module_two \<and>
                  lm_sort_order q = lm_sort_order module_two - 1 \<and> lm_is_active q) \<and>
                 \<not> (\<exists>p \<in> set (student_module_progress learn_db).
                       smp_student_id p = 2 \<and> smp_module_id p = lm_id q \<and>
                       smp_status p = ''completed''))"
    by (rule t2 [THEN conjunct2, THEN conjunct1, THEN mp]) (simp add: learn_defs)
  then have second: "is_module_locked 2 module_two learn_db = Inr True"
    by (simp add: learn_defs)
  have access: "\<exists>sp. filter (\<lambda>sp. slp_student_id sp = 2 \<and>
                    slp_path_id sp = lm_path_id module_two \<and> slp_is_active sp)
                  (student_learning_paths learn_db) = [sp]"
    by (simp add: learn_defs)
  note found2 = t2 [THEN conjunct2, THEN conjunct2, THEN conjunct2, THEN conjunct2, THEN mp,
      OF f2]
  have refused: "start_module 2 12 1000 31 learn_db =
       Inl (ValueError ''Module is locked. Complete previous modules first.'')"
    by (rule found2 [THEN conjunct2, THEN conjunct2, THEN conjunct1, THEN iffD2])
       (rule conjI [OF access second])
  have unknown: "start_module 2 99 1000 31 learn_db = Inl (ValueError ''Module not found'')"
    by (rule t4 [THEN conjunct2, THEN conjunct2, THEN conjunct1, THEN mp, OF f4])
  have "filter (\<lambda>sp. slp_student_id sp = 3 \<and> slp_path_id sp = lm_path_id module_one \<and>
                    slp_is_active sp) (student_learning_paths learn_db) = []"
    by (simp add: learn_defs)
  from t5 [THEN conjunct2, THEN conjunct2, THEN conjunct2, THEN conjunct2, THEN mp, OF f1,
           THEN conjunct1, THEN mp, OF this]
  have stranger: "start_module 3 11 1000 31 learn_db =
       Inl (ValueError ''Student does not have access to this module's learning path'')" .
  have twins: "start_module 2 11 1000 31
      (learn_db\<lparr>learning_modules := [module_one, module_one]\<rparr>) = Inl MultipleResultsFound"
    by (rule t6 [THEN conjunct2, THEN conjunct2, THEN conjunct2, THEN conjunct1, THEN mp, OF f5])
  have "is_module_locked 2 module_two done_db =
          Inr (\<exists>q \<in> set (learning_modules done_db).
                 (lm_path_id q = lm_path_id module_two \<and>
                  lm_sort_order q = lm_sort_order module_two - 1 \<and> lm_is_active q) \<and>
                 \<not> (\<exists>p \<in> set (student_module_progress done_db).
                       smp_student_id p = 2 \<and> smp_module_id p = lm_id q \<and>
                       smp_status p = ''completed''))"
    by (rule t3 [THEN conjunct2, THEN conjunct1, THEN mp]) (simp add: learn_defs)
  then have third: "is_module_locked 2 module_two done_db = Inr False"
    by (simp add: learn_defs)
  have ready: "(\<exists>sp. filter (\<lambda>sp. slp_student_id sp = 2 \<and>
                    slp_path_id sp = lm_path_id module_two \<and> slp_is_active sp)
                  (student_learning_paths done_db) = [sp]) \<and>
        is_module_locked 2 module_two done_db = Inr False \<and>
        length (filter (\<lambda>p. smp_student_id p = 2 \<and> smp_module_id p = 12)
                  (student_module_progress done_db)) \<le> 1"
    using third by (simp add: learn_defs)
  note found3 = t3 [THEN conjunct2, THEN conjunct2, THEN conjunct2, THEN conjunct2, THEN mp,
      OF f3]
  from found3 [THEN conjunct2, THEN conjunct2, THEN conjunct2] ready
  have started: "\<forall>e. start_module 2 12 1000 31 done_db \<noteq> Inl e"
    by simp
  from first second refused unknown stranger twins third started show ?thesis
    by (intro conjI)
qed

text \<open>
  The claim as worded fails in two ways.  \<^verbatim>\<open>start_module\<close> raises for modules that are
  not locked: for a student without an enrolment in the path of the first module, and for
  an unknown module id.  And with two active modules in the preceding position, none of
  them completed, the lock check does not answer true: it raises
  \<^verbatim>\<open>MultipleResultsFound\<close>.
\<close>

theorem module_locking_counterexample:
  "start_module 3 11 1000 31 learn_db =
     Inl (ValueError ''Student does not have access to this module's learning path'')
   \<and> is_module_locked 3 module_one learn_db = Inr False
   \<and> start_module 2 99 1000 31 learn_db = Inl (ValueError ''Module not found'')
   \<and> list_ex (\<lambda>q. lm_path_id q = lm_path_id module_two \<and>
                  lm_sort_order q = lm_sort_order module_two - 1 \<and> lm_is_active q \<and>
                  \<not> list_ex (\<lambda>p. smp_student_id p = 2 \<and> smp_module_id p = lm_id q \<and>
                                 smp_status p = ''completed'')
                      (student_module_progress twin_db))
       (learning_modules twin_db)
   \<and> is_module_locked 2 module_two twin_db = Inl MultipleResultsFound"
  by (simp add: learn_defs twin_db_def start_module_def is_module_locked_def)

subsection \<open>The guard of authenticated endpoints\<close>

text \<open>
  Claim C3, as the code has it.  For an endpoint that depends on \<^verbatim>\<open>get_current_user\<close>:
  \<^item> a token that does not verify, a payload without \<^verbatim>\<open>sub\<close>, and a \<^verbatim>\<open>sub\<close> that is the
    text of a UUID of no active user are answered with 401, the endpoint body is not
    called and the database is the one before;
  \<^item> a verified token whose \<^verbatim>\<open>sub\<close> is not the text of a UUID makes \<^verbatim>\<open>uuid.UUID\<close> raise
    \<^verbatim>\<open>ValueError\<close>, which nothing catches: the response is 500, not 401 (the body is not
    called and the database is the one before);
  \<^item> when the \<^verbatim>\<open>sub\<close> is the id of exactly one active user, the body is called with
    that user.
\<close>

theorem current_user_guard:
  "(verify_token lib credentials = None \<longrightarrow>
      depends_get_current_user lib endpoint credentials d = (Inl (HTTPException 401), d))
   \<and> (\<forall>pl. verify_token lib credentials = Some pl \<and> pl_sub pl = None \<longrightarrow>
          depends_get_current_user lib endpoint credentials d = (Inl (HTTPException 401), d))
   \<and> (\<forall>pl sub uid. verify_token lib credentials = Some pl \<and> pl_sub pl = Some sub \<and>
          UUID lib sub = Some uid \<and>
          filter (\<lambda>u. u_id u = uid \<and> u_is_active u) (users d) = [] \<longrightarrow>
          depends_get_current_user lib endpoint credentials d = (Inl (HTTPException 401), d))
   \<and> (\<forall>pl sub. verify_token lib credentials = Some pl \<and> pl_sub pl = Some sub \<and>
          UUID lib sub = None \<longrightarrow>
          depends_get_current_user lib endpoint credentials d =
            (Inl (ValueError ''badly formed hexadecimal UUID string''), d) \<and>
          http_status (ValueError ''badly formed hexadecimal UUID string'') = 500)
   \<and> (\<forall>pl sub uid user. verify_token lib credentials = Some pl \<and> pl_sub pl = Some sub \<and>
          UUID lib sub = Some uid \<and>
          filter (\<lambda>u. u_id u = uid \<and> u_is_active u) (users d) = [user] \<longrightarrow>
          depends_get_current_user lib endpoint credentials d = endpoint user d)"
  by (simp add: depends_get_current_user_def get_current_user_def)

text \<open>
  On the example data: the body below would empty the table \<^verbatim>\<open>users\<close> if it ran.
\<close>

theorem current_user_guard_witness:
  "depends_get_current_user demo_libs (\<lambda>user d. (Inr (u_email user), d\<lparr>users := []\<rparr>))
       ''no-token'' bob_db = (Inl (HTTPException 401), bob_db)
   \<and> depends_get_current_user demo_libs (\<lambda>user d. (Inr (u_email user), d\<lparr>users := []\<rparr>))
       ''token-without-sub'' bob_db = (Inl (HTTPException 401), bob_db)
   \<and> depends_get_current_user demo_libs (\<lambda>user d. (Inr (u_email user), d\<lparr>users := []\<rparr>))
       ''token-of-nobody'' bob_db = (Inl (HTTPException 401), bob_db)
   \<and> depends_get_current_user demo_libs (\<lambda>user d. (Inr (u_email user), d\<lparr>users := []\<rparr>))
       ''token-with-odd-sub'' bob_db =
       (Inl (ValueError ''badly formed hexadecimal UUID string''), bob_db)
   \<and> http_status (ValueError ''badly formed hexadecimal UUID string'') = 500
   \<and> depends_get_current_user demo_libs (\<lambda>user d. (Inr (u_email user), d\<lparr>users := []\<rparr>))
       ''token-of-bob'' bob_db = (Inr ''bob@x.com'', bob_db\<lparr>users := []\<rparr>)"
proof -
  let ?body = "\<lambda>user d. (Inr (u_email user), d\<lparr>users := []\<rparr>)"
  note t = current_user_guard [where lib = demo_libs and endpoint = ?body and d = bob_db]
  have v0: "verify_token demo_libs ''no-token'' = None"
    by (simp add: verify_token_def demo_libs_def demo_decode_def)
  have v1: "verify_token demo_libs ''token-without-sub'' =
              Some \<lparr>pl_sub = None, pl_email = Some ''bob@x.com'', pl_type = Some ''access'',
                    pl_exp = Some 86400000000, pl_iat = Some 0\<rparr> \<and>
            pl_sub \<lparr>pl_sub = None, pl_email = Some ''bob@x.com'', pl_type = Some ''access'',
                    pl_exp = Some 86400000000, pl_iat = Some 0\<rparr> = None"
    by (simp add: verify_token_def demo_libs_def demo_decode_def)
  have v2: "verify_token demo_libs ''token-of-nobody'' =
              Some \<lparr>pl_sub = Some ''00000000-0000-0000-0000-000000000009'',
                    pl_email = Some ''eve@x.com'', pl_type = Some ''access'',
                    pl_exp = Some 86400000000, pl_iat = Some 0\<rparr> \<and>
            pl_sub \<lparr>pl_sub = Some ''00000000-0000-0000-0000-000000000009'',
                    pl_email = Some ''eve@x.com'', pl_type = Some ''access'',
                    pl_exp = Some 86400000000, pl_iat = Some 0\<rparr> =
              Some ''00000000-0000-0000-0000-000000000009'' \<and>
            UUID demo_libs ''00000000-0000-0000-0000-000000000009'' = Some 9 \<and>
            filter (\<lambda>u. u_id u = 9 \<and> u_is_active u) (users bob_db) = []"
    by (simp add: verify_token_def demo_libs_def demo_decode_def demo_UUID_def user_defs)
  have v3: "verify_token demo_libs ''token-with-odd-sub'' =
              Some \<lparr>pl_sub = Some ''bob'', pl_email = Some ''bob@x.com'',
                    pl_type = Some ''access'', pl_exp = Some 86400000000, pl_iat = Some 0\<rparr> \<and>
            pl_sub \<lparr>pl_sub = Some ''bob'', pl_email = Some ''bob@x.com'',
                    pl_type = Some ''access'', pl_exp = Some 86400000000, pl_iat = Some 0\<rparr> =
              Some ''bob'' \<and>
            UUID demo_libs ''bob'' = None"
    by (simp add: verify_token_def demo_libs_def demo_decode_def demo_UUID_def)
  have v4: "verify_token demo_libs ''token-of-bob'' =
              Some \<lparr>pl_sub = Some ''00000000-0000-0000-0000-000000000001'',
                    pl_email = Some ''bob@x.com'', pl_type = Some ''access'',
                    pl_exp = Some 86400000000, pl_iat = Some 0\<rparr> \<and>
            pl_sub \<lparr>pl_sub = Some ''00000000-0000-0000-0000-000000000001'',
                    pl_email = Some ''bob@x.com'', pl_type = Some ''access'',
                    pl_exp = Some 86400000000, pl_iat = Some 0\<rparr> =
              Some ''00000000-0000-0000-0000-000000000001'' \<and>
            UUID demo_libs ''00000000-0000-0000-0000-000000000001'' = Some 1 \<and>
            filter (\<lambda>u. u_id u = 1 \<and> u_is_active u) (users bob_db) = [bob]"
    by (simp add: verify_token_def demo_libs_def demo_decode_def demo_UUID_def user_defs)
  note a = t [where credentials = "''no-token''", THEN conjunct1, THEN mp, OF v0]
  note b = t [where credentials = "''token-without-sub''", THEN conjunct2, THEN conjunct1,
      rule_format, OF v1]
  note c = t [where credentials = "''token-of-nobody''", THEN conjunct2, THEN conjunct2,
      THEN conjunct1, rule_format, OF v2]
  note e = t [where credentials = "''token-with-odd-sub''", THEN conjunct2, THEN conjunct2,
      THEN conjunct2, THEN conjunct1, rule_format, OF v3]
  note f = t [where credentials = "''token-of-bob''", THEN conjunct2, THEN conjunct2,
      THEN conjunct2, THEN conjunct2, rule_format, OF v4]
  have g: "?body bob bob_db = (Inr ''bob@x.com'', bob_db\<lparr>users := []\<rparr>)"
    by (simp add: bob_def)
  from a b c e [THEN conjunct1] e [THEN conjunct2] f [unfolded g] show ?thesis
    by (intro conjI)
qed

subsection \<open>Registration\<close>

text \<open>
  Claim C10, as the code has it.  After pydantic has parsed the body:
  \<^item> an email that fails the format check, a password that fails the strength check and
    an age outside 5 to 18 are answered with 400;
  \<^item> an email that a stored user has, letter for letter, is answered with 400;
  \<^item> an email that differs from a stored one only in the case of its letters passes the
    duplicate check (the query compares the email as typed, the table holds emails
    lowercased); the insert of the lowercased email then breaks the unique constraint,
    and the answer is 500, not 400;
  \<^item> otherwise, the new ids being fresh, the answer is a token and the database has
    gained exactly one user, with the email lowercased, and one student linked to that
    user;
  \<^item> whenever the answer is an error, the database is the one before.
\<close>

theorem registration_validated:
  "(\<not> (validate_email (reg_email rd) \<and>
         fst (validate_password_strength st (reg_password rd)) \<and>
         validate_student_age (reg_age rd)) \<longrightarrow>
      register lib st now vtoken uid sid rd d = (Inl (HTTPException 400), d))
   \<and> (\<forall>u. validate_email (reg_email rd) \<and>
          fst (validate_password_strength st (reg_password rd)) \<and>
          validate_student_age (reg_age rd) \<and>
          filter (\<lambda>u. u_email u = reg_email rd) (users d) = [u] \<longrightarrow>
          register lib st now vtoken uid sid rd d = (Inl (HTTPException 400), d))
   \<and> (validate_email (reg_email rd) \<and>
        fst (validate_password_strength st (reg_password rd)) \<and>
        validate_student_age (reg_age rd) \<and>
        filter (\<lambda>u. u_email u = reg_email rd) (users d) = [] \<and>
        list_ex (\<lambda>v. u_email v = lower (reg_email rd)) (users d) \<longrightarrow>
        register lib st now vtoken uid sid rd d = (Inl (HTTPException 500), d))
   \<and> (validate_email (reg_email rd) \<and>
        fst (validate_password_strength st (reg_password rd)) \<and>
        validate_student_age (reg_age rd) \<and>
        filter (\<lambda>u. u_email u = reg_email rd) (users d) = [] \<and>
        \<not> list_ex (\<lambda>v. u_id v = uid \<or> u_email v = lower (reg_email rd)) (users d) \<and>
        \<not> list_ex (\<lambda>v. st_id v = sid) (students d) \<longrightarrow>
        (\<exists>token. register lib st now vtoken uid sid rd d =
           (Inr token,
            d\<lparr>users := users d @
                 [\<lparr>u_id = uid, u_email = lower (reg_email rd),
                   u_password_hash = pwd_hash lib (reg_password rd),
                   u_email_verification_token = Some vtoken,
                   u_email_verification_expires = Some (now + timedelta_hours 24),
                   u_last_login = None, u_failed_login_attempts = Some 0,
                   u_locked_until = None, u_is_active = True\<rparr>],
              students := students d @
                 [\<lparr>st_id = sid, st_user_id = uid, st_age = reg_age rd,
                   st_is_active = True\<rparr>]\<rparr>)))
   \<and> (\<forall>e d'. register lib st now vtoken uid sid rd d = (Inl e, d') \<longrightarrow> d' = d)"
proof (intro conjI allI impI)
  assume "\<not> (validate_email (reg_email rd) \<and>
         fst (validate_password_strength st (reg_password rd)) \<and>
         validate_student_age (reg_age rd))"
  then show "register lib st now vtoken uid sid rd d = (Inl (HTTPException 400), d)"
    by (auto simp: register_def)
next
  fix u
  assume "validate_email (reg_email rd) \<and>
          fst (validate_password_strength st (reg_password rd)) \<and>
          validate_student_age (reg_age rd) \<and>
          filter (\<lambda>u. u_email u = reg_email rd) (users d) = [u]"
  then show "register lib st now vtoken uid sid rd d = (Inl (HTTPException 400), d)"
    by (simp add: register_def)
next
  assume "validate_email (reg_email rd) \<and>
        fst (validate_password_strength st (reg_password rd)) \<and>
        validate_student_age (reg_age rd) \<and>
        filter (\<lambda>u. u_email u = reg_email rd) (users d) = [] \<and>
        list_ex (\<lambda>v. u_email v = lower (reg_email rd)) (users d)"
  then show "register lib st now vtoken uid sid rd d = (Inl (HTTPException 500), d)"
    by (auto simp: register_def insert_user_def Let_def list_ex_iff)
next
  assume "validate_email (reg_email rd) \<and>
        fst (validate_password_strength st (reg_password rd)) \<and>
        validate_student_age (reg_age rd) \<and>
        filter (\<lambda>u. u_email u = reg_email rd) (users d) = [] \<and>
        \<not> list_ex (\<lambda>v. u_id v = uid \<or> u_email v = lower (reg_email rd)) (users d) \<and>
        \<not> list_ex (\<lambda>v. st_id v = sid) (students d)"
  then show "\<exists>token. register lib st now vtoken uid sid rd d =
           (Inr token,
            d\<lparr>users := users d @
                 [\<lparr>u_id = uid, u_email = lower (reg_email rd),
                   u_password_hash = pwd_hash lib (reg_password rd),
                   u_email_verification_token = Some vtoken,
                   u_email_verification_expires = Some (now + timedelta_hours 24),
                   u_last_login = None, u_failed_login_attempts = Some 0,
                   u_locked_until = None, u_is_active = True\<rparr>],
              students := students d @
                 [\<lparr>st_id = sid, st_user_id = uid, st_age = reg_age rd,
                   st_is_active = True\<rparr>]\<rparr>)"
    by (simp add: register_def insert_user_def insert_student_def Let_def)
next
  fix e d'
  assume "register lib st now vtoken uid sid rd d = (Inl e, d')"
  then show "d' = d"
    by (auto simp: register_def Let_def split: if_splits sum.splits option.splits)
qed

lemmas register_eval = validate_email_def validate_password_strength_def
  validate_student_age_def demo_settings_def is_alnum_def is_upper_def is_lower_def
  is_digit_def is_special_def common_passwords_def lower_def lower_char_def Let_def

theorem registration_validated_witness:
  "register demo_libs demo_settings 1000 ''v'' 9 5
       \<lparr>reg_email = ''Bob@x.com'', reg_password = ''Passw0rd!'', reg_age = 10\<rparr> bob_db =
     (Inl (HTTPException 500), bob_db)
   \<and> register demo_libs demo_settings 1000 ''v'' 9 5
       \<lparr>reg_email = ''bob@x.com'', reg_password = ''Passw0rd!'', reg_age = 10\<rparr> bob_db =
     (Inl (HTTPException 400), bob_db)
   \<and> register demo_libs demo_settings 1000 ''v'' 9 5
       \<lparr>reg_email = ''eve@x.com'', reg_password = ''Passw0rd!'', reg_age = 4\<rparr> bob_db =
     (Inl (HTTPException 400), bob_db)
   \<and> (\<exists>token. register demo_libs demo_settings 1000 ''v'' 9 5
       \<lparr>reg_email = ''Eve@x.com'', reg_password = ''Passw0rd!'', reg_age = 10\<rparr> bob_db =
     (Inr token,
      bob_db\<lparr>users := users bob_db @
           [\<lparr>u_id = 9, u_email = ''eve@x.com'', u_password_hash = ''bcrypt:Passw0rd!'',
             u_email_verification_token = Some ''v'',
             u_email_verification_expires = Some 86400001000,
             u_last_login = None, u_failed_login_attempts = Some 0,
             u_locked_until = None, u_is_active = True\<rparr>],
         students := students bob_db @
           [\<lparr>st_id = 5, st_user_id = 9, st_age = 10, st_is_active = True\<rparr>]\<rparr>))
   \<and> snd (register demo_libs demo_settings 1000 ''v'' 9 5
       \<lparr>reg_email = ''Bob@x.com'', reg_password = ''Passw0rd!'', reg_age = 10\<rparr> bob_db) =
       bob_db"
proof -
  let ?upper = "\<lparr>reg_email = ''Bob@x.com'', reg_password = ''Passw0rd!'', reg_age = 10\<rparr>"
  let ?same = "\<lparr>reg_email = ''bob@x.com'', reg_password = ''Passw0rd!'', reg_age = 10\<rparr>"
  let ?young = "\<lparr>reg_email = ''eve@x.com'', reg_password = ''Passw0rd!'', reg_age = 4\<rparr>"
  let ?eve = "\<lparr>reg_email = ''Eve@x.com'', reg_password = ''Passw0rd!'', reg_age = 10\<rparr>"
  have pw: "fst (validate_password_strength demo_settings ''Passw0rd!'')"
    by (simp add: register_eval)
  have m1: "validate_email ''Bob@x.com''" and m2: "validate_email ''bob@x.com''"
    and m3: "validate_email ''Eve@x.com''"
    by (simp_all add: register_eval)
  have h1: "validate_email (reg_email ?upper) \<and>
        fst (validate_password_strength demo_settings (reg_password ?upper)) \<and>
        validate_student_age (reg_age ?upper) \<and>
        filter (\<lambda>u. u_email u = reg_email ?upper) (users bob_db) = [] \<and>
        list_ex (\<lambda>v. u_email v = lower (reg_email ?upper)) (users bob_db)"
    using pw m1 by (simp add: validate_student_age_def user_defs lower_def lower_char_def)
  have h2: "validate_email (reg_email ?same) \<and>
          fst (validate_password_strength demo_settings (reg_password ?same)) \<and>
          validate_student_age (reg_age ?same) \<and>
          filter (\<lambda>u. u_email u = reg_email ?same) (users bob_db) = [bob]"
    using pw m2 by (simp add: validate_student_age_def user_defs)
  have h3: "\<not> (validate_email (reg_email ?young) \<and>
         fst (validate_password_strength demo_settings (reg_password ?young)) \<and>
         validate_student_age (reg_age ?young))"
    by (simp add: validate_student_age_def)
  have h4: "validate_email (reg_email ?eve) \<and>
        fst (validate_password_strength demo_settings (reg_password ?eve)) \<and>
        validate_student_age (reg_age ?eve) \<and>
        filter (\<lambda>u. u_email u = reg_email ?eve) (users bob_db) = [] \<and>
        \<not> list_ex (\<lambda>v. u_id v = 9 \<or> u_email v = lower (reg_email ?eve)) (users bob_db) \<and>
        \<not> list_ex (\<lambda>v. st_id v = 5) (students bob_db)"
    using pw m3 by (simp add: validate_student_age_def user_defs lower_def lower_char_def)
  note t = registration_validated [where lib = demo_libs and st = demo_settings and now = 1000
      and vtoken = "''v''" and uid = 9 and sid = 5 and d = bob_db]
  note a = t [where rd = ?upper, THEN conjunct2, THEN conjunct2, THEN conjunct1, THEN mp, OF h1]
  note b = t [where rd = ?same, THEN conjunct2, THEN conjunct1, rule_format, OF h2]
  note c = t [where rd = ?young, THEN conjunct1, THEN mp, OF h3]
  note e = t [where rd = ?eve, THEN conjunct2, THEN conjunct2, THEN conjunct2, THEN conjunct1,
      THEN mp, OF h4]
  from e have e': "\<exists>token. register demo_libs demo_settings 1000 ''v'' 9 5 ?eve bob_db =
     (Inr token,
      bob_db\<lparr>users := users bob_db @
           [\<lparr>u_id = 9, u_email = ''eve@x.com'', u_password_hash = ''bcrypt:Passw0rd!'',
             u_email_verification_token = Some ''v'',
             u_email_verification_expires = Some 86400001000,
             u_last_login = None, u_failed_login_attempts = Some 0,
             u_locked_until = None, u_is_active = True\<rparr>],
         students := students bob_db @
           [\<lparr>st_id = 5, st_user_id = 9, st_age = 10, st_is_active = True\<rparr>]\<rparr>)"
    by (simp add: lower_def lower_char_def demo_libs_def timedelta_hours_def)
  from a have "register demo_libs demo_settings 1000 ''v'' 9 5 ?upper bob_db =
      (Inl (HTTPException 500), snd (register demo_libs demo_settings 1000 ''v'' 9 5 ?upper bob_db))"
    by simp
  from t [where rd = ?upper, THEN conjunct2, THEN conjunct2, THEN conjunct2, THEN conjunct2,
          rule_format, OF this]
  have f: "snd (register demo_libs demo_settings 1000 ''v'' 9 5 ?upper bob_db) = bob_db" .
  from a b c e' f show ?thesis by (intro conjI)
qed

subsection \<open>Finding a learning path by name\<close>

lemma scalar_one_or_none_find:
  assumes "distinct (map f xs)"
  shows "scalar_one_or_none (filter (\<lambda>x. f x = k \<and> Q x) xs) =
         Inr (find (\<lambda>x. f x = k \<and> Q x) xs)"
  using assms
proof (induction xs)
  case Nil
  show ?case by simp
next
  case (Cons y ys)
  show ?case
  proof (cases "f y = k \<and> Q y")
    case True
    with Cons.prems have "\<forall>z \<in> set ys. f z \<noteq> k" by (auto simp: image_iff)
    then have "filter (\<lambda>x. f x = k \<and> Q x) ys = []" by (simp add: filter_empty_conv)
    with True show ?thesis by simp
  next
    case False
    moreover from Cons.prems have "distinct (map f ys)" by simp
    ultimately show ?thesis using Cons.IH by auto
  qed
qed

lemma replace_single: "replace [a] [b] s = map (\<lambda>c. if c = a then b else c) s"
  by (induction s) auto

lemma replace_delete: "replace [a] [] s = filter (\<lambda>c. c \<noteq> a) s"
  by (induction s) auto

lemma replace_absent: "a \<notin> set s \<Longrightarrow> replace (a # old) new s = s"
  by (induction s) auto

text \<open>
  The slug that the code computes is the slug of the claim: the last replacement, of two
  spaces, finds no space left.
\<close>

lemma slug_as_claimed:
  "replace ''  '' ''-'' (replace ''&'' '''' (replace '' '' ''-'' (lower path_name))) =
   claimed_slug path_name"
proof -
  have "CHR '' '' \<notin> set (claimed_slug path_name)"
    by (auto simp: claimed_slug_def)
  then have "replace ''  '' ''-'' (claimed_slug path_name) = claimed_slug path_name"
    by (rule replace_absent)
  then show ?thesis
    by (simp add: claimed_slug_def replace_single replace_delete)
qed

lemma mapping_loop_find:
  "mapping_loop ms path_key d =
     (case find (\<lambda>(key, slug). contains path_key key) ms of
        None \<Rightarrow> Inr None
      | Some (key, slug) \<Rightarrow> select_path_by_slug slug d)"
  by (induction ms) auto

text \<open>
  Claim C1, as the code has it.  Names and slugs of learning paths are unique (both
  columns are declared so).  Then \<^verbatim>\<open>find_learning_path_by_name\<close> returns, without raising,
  the active path whose name equals the input if there is one; otherwise the active path
  whose slug is the input lowercased with spaces replaced by hyphens and \<^verbatim>\<open>&\<close> removed;
  otherwise, for the first key of \<^verbatim>\<open>name_mappings\<close> that occurs in the lowercased input,
  the \<^emph>\<open>active\<close> path with the mapped slug, and \<^verbatim>\<open>None\<close> if that path is missing or not
  active; and \<^verbatim>\<open>None\<close> when no key occurs.
\<close>

theorem find_learning_path_by_name_lookup:
  assumes names: "distinct (map lp_name (learning_paths d))"
    and slugs: "distinct (map lp_slug (learning_paths d))"
  shows "find_learning_path_by_name path_name d = Inr (active_lookup path_name d)"
proof -
  note by_name = scalar_one_or_none_find [OF names, where k = path_name and Q = lp_is_active]
  note by_slug = scalar_one_or_none_find [OF slugs, where Q = lp_is_active]
  have third: "mapping_loop name_mappings (lower path_name) d =
      Inr (case first_mapped_slug path_name of
             None \<Rightarrow> None
           | Some slug \<Rightarrow> find (\<lambda>p. lp_slug p = slug \<and> lp_is_active p) (learning_paths d))"
    by (simp add: mapping_loop_find first_mapped_slug_def select_path_by_slug_def by_slug
          split: option.splits)
  show ?thesis
    unfolding find_learning_path_by_name_def slug_as_claimed Let_def select_path_by_slug_def
      by_name by_slug third active_lookup_def
    by (simp split: option.splits)
qed

lemmas lookup_eval = active_lookup_def claimed_lookup_def claimed_slug_def
  first_mapped_slug_def name_mappings_def lower_def lower_char_def

theorem find_learning_path_by_name_lookup_witness:
  "find_learning_path_by_name ''Game Development'' learn_db = Inr (Some game_path)
   \<and> find_learning_path_by_name ''game development'' learn_db = Inr (Some game_path)
   \<and> find_learning_path_by_name ''I like Games'' learn_db = Inr (Some game_path)
   \<and> find_learning_path_by_name ''cooking'' learn_db = Inr None
   \<and> find_learning_path_by_name ''Robots'' learn_db = Inr None"
proof -
  have n: "distinct (map lp_name (learning_paths learn_db))"
    and s: "distinct (map lp_slug (learning_paths learn_db))"
    by (simp_all add: learn_defs)
  note t = find_learning_path_by_name_lookup [OF n s]
  have a: "active_lookup ''Game Development'' learn_db = Some game_path"
    by (simp add: lookup_eval learn_defs)
  have b: "active_lookup ''game development'' learn_db = Some game_path"
    by (simp add: lookup_eval learn_defs)
  have c: "active_lookup ''I like Games'' learn_db = Some game_path"
    by (simp add: lookup_eval learn_defs)
  have e: "active_lookup ''cooking'' learn_db = None"
    by (simp add: lookup_eval learn_defs)
  have f: "active_lookup ''Robots'' learn_db = None"
    by (simp add: lookup_eval learn_defs)
  from t [of "''Game Development''"] t [of "''game development''"] t [of "''I like Games''"]
    t [of "''cooking''"] t [of "''Robots''"] a b c e f
  show ?thesis by (simp only:) 
qed

text \<open>
  The lookup as the claim words it differs on a path that is not active: the key
  \<^verbatim>\<open>game\<close> is mapped to the slug of the withdrawn path, which the claim returns and the
  code does not.
\<close>

theorem find_learning_path_by_name_counterexample:
  "find_learning_path_by_name ''game'' paused_db = Inr None
   \<and> claimed_lookup ''game'' paused_db = Some (game_path\<lparr>lp_is_active := False\<rparr>)"
  by (simp add: find_learning_path_by_name_def select_path_by_slug_def lookup_eval learn_defs
        paused_db_def Let_def)

subsection \<open>Rate limits\<close>









subsection \<open>Assessment analytics\<close>










end
